theory Spec2Isabelle
  imports Complex_Main "HOL-Library.Log_Nat"
begin

section \<open>JavaScript numbers\<close>

text \<open>
  The installment billing engine of ADC-PRO (TypeScript). A JavaScript number is an IEEE 754
  binary64 value, a double. The model carries a number as a rational: a rational stands for
  the double nearest to it, a tie going to the even significand, as a decimal literal of the
  source does. Every arithmetic operation reads its operands through \<open>double\<close> and rounds
  its exact result with \<open>double\<close>; a comparison reads both sides through \<open>double\<close>.
  \<open>NaN\<close>, the infinities and the sign of zero are outside the model: operands and results
  are finite (of magnitude below \<open>2 ^ 1024\<close>). Counts, indices and amounts in cents are
  integers below \<open>2 ^ 53\<close>, on which the increments of the code are exact; they are \<open>int\<close>.
  Strings are HOL strings.
\<close>

text \<open>\<open>pow2 e\<close> is 2 to the power \<open>e\<close>, for any integer \<open>e\<close>.\<close>

definition pow2 :: "int \<Rightarrow> rat" where
  "pow2 e = (if 0 \<le> e then 2 ^ nat e else 1 / 2 ^ nat (- e))"

text \<open>The binary exponent of a positive rational \<open>a\<close>: \<open>pow2 (expo a) \<le> a < pow2 (expo a + 1)\<close>.\<close>

definition expo :: "rat \<Rightarrow> int" where
  "expo a = (if 1 \<le> a then bitlen \<lfloor>a\<rfloor> - 1 else - bitlen (\<lceil>1 / a\<rceil> - 1))"

text \<open>The nearest integer, a tie going to the even one.\<close>

definition roundHalfEven :: "rat \<Rightarrow> int" where
  "roundHalfEven m =
     (let f = \<lfloor>m\<rfloor>; d = m - of_int f
      in if d < 1 / 2 then f else if 1 / 2 < d then f + 1 else if even f then f else f + 1)"

text \<open>
  The double nearest to \<open>x\<close>: a significand of 53 bits, and below \<open>2 ^ - 1022\<close> the fixed
  spacing \<open>2 ^ - 1074\<close> of the subnormal numbers.
\<close>

definition double :: "rat \<Rightarrow> rat" where
  "double x =
     (if x = 0 then 0
      else (let a = \<bar>x\<bar>; u = pow2 (max (expo a) (- 1022) - 52)
            in sgn x * of_int (roundHalfEven (a / u)) * u))"

text \<open>The operators \<open>+\<close>, \<open>-\<close>, \<open>*\<close> and \<open>/\<close> on numbers.\<close>

definition fadd :: "rat \<Rightarrow> rat \<Rightarrow> rat" where
  "fadd x y = double (double x + double y)"

definition fsub :: "rat \<Rightarrow> rat \<Rightarrow> rat" where
  "fsub x y = double (double x - double y)"

definition fmul :: "rat \<Rightarrow> rat \<Rightarrow> rat" where
  "fmul x y = double (double x * double y)"

definition fdiv :: "rat \<Rightarrow> rat \<Rightarrow> rat" where
  "fdiv x y = double (double x / double y)"

text \<open>\<open>Math.round\<close> of a double: the nearest integer, a tie going up.\<close>

definition js_round :: "rat \<Rightarrow> int" where
  "js_round x = \<lfloor>x + 1 / 2\<rfloor>"

text \<open>
  The remainder operator \<open>%\<close> of JavaScript on integers: exact, with the sign of the
  dividend.
\<close>

definition js_rem :: "int \<Rightarrow> int \<Rightarrow> int" where
  "js_rem a b = sgn a * (\<bar>a\<bar> mod \<bar>b\<bar>)"

text \<open>The decimal rendering of a non-negative integer inside a template literal.\<close>

function show_nat :: "nat \<Rightarrow> string" where
  "show_nat n =
     (if n < 10 then [''0123456789'' ! n]
      else show_nat (n div 10) @ [''0123456789'' ! (n mod 10)])"
  by pat_completeness auto
termination
  by (relation "measure (\<lambda>n. n)") auto

declare show_nat.simps [simp del]

section \<open>Data model\<close>

datatype status = Pendente | Pago | Falhou

text \<open>What the functions can throw.\<close>

datatype error =
    ERR_CRYPTO_TIMING_SAFE_EQUAL_LENGTH
  | SyntaxError
  | RangeError
  | FetchFailed
  | FirestoreInvalidData

text \<open>A \<open>Payment\<close> record: \<open>{ id, amount, date, method, receivedBy }\<close>.\<close>

record payment =
  id_pay :: string
  amount_pay :: rat
  date_pay :: string
  method_pay :: string
  receivedBy :: string

text \<open>
  The optional string field \<open>paymentDate\<close> of an installment object: the key is absent, or
  it holds \<open>undefined\<close>, \<open>null\<close> or a string. A document read from the store never holds
  \<open>undefined\<close>; an object built by the code can.
\<close>

datatype field = Absent | Undefined | Null | Str string

text \<open>An \<open>Installment\<close> record.\<close>

record installment =
  id_inst :: string
  installmentNumber :: int
  amount :: rat
  dueDate :: string
  status :: status
  paidAmount :: rat
  payments :: "payment list"
  paymentDate :: field

section \<open>Schedule builder (\<open>src/context/AdminContext.tsx\<close>, \<open>recalculateInstallments\<close>)\<close>

text \<open>
  The object pushed by the body of the \<open>for\<close> loop, for index \<open>i\<close>, the amount in cents
  chosen for it and the due date. The object has no key \<open>paymentDate\<close>.
\<close>

definition newInstallment :: "string \<Rightarrow> int \<Rightarrow> int \<Rightarrow> string \<Rightarrow> installment" where
  "newInstallment orderId i installmentValueCents due =
     \<lparr> id_inst = ''inst-'' @ orderId @ ''-'' @ show_nat (nat (i + 1)),
       installmentNumber = i + 1,
       amount = fdiv (of_int installmentValueCents) 100,
       dueDate = due,
       status = Pendente,
       paidAmount = 0,
       payments = [],
       paymentDate = Absent \<rparr>"

text \<open>
  The loop \<open>for (let i = 0; i < installmentsCount; i++)\<close> with its two mutable variables,
  \<open>remainderInCents\<close> and the array \<open>newInstallmentDetails\<close>. \<open>addMonths firstDueDate i\<close>
  stands for \<open>addMonths(new Date(firstDueDate), i).toISOString()\<close> of the date library; it is
  \<open>None\<close> when the date is invalid (an unparsable \<open>firstDueDate\<close>, or a result out of the
  range of dates), where \<open>toISOString\<close> throws a \<open>RangeError\<close> that leaves the function.
\<close>

function installmentLoop ::
  "(string \<Rightarrow> int \<Rightarrow> string option) \<Rightarrow> string \<Rightarrow> string \<Rightarrow> int \<Rightarrow> int
     \<Rightarrow> int \<Rightarrow> int \<Rightarrow> installment list \<Rightarrow> error + installment list" where
  "installmentLoop addMonths orderId firstDueDate installmentsCount baseInstallmentValueInCents
       i remainderInCents newInstallmentDetails =
     (if i < installmentsCount then
        (let installmentValueCents =
               (if remainderInCents > 0 then baseInstallmentValueInCents + 1
                else baseInstallmentValueInCents);
             remainderInCents' =
               (if remainderInCents > 0 then remainderInCents - 1 else remainderInCents)
         in (case addMonths firstDueDate i of
               None \<Rightarrow> Inl RangeError
             | Some due \<Rightarrow>
                 installmentLoop addMonths orderId firstDueDate installmentsCount
                   baseInstallmentValueInCents (i + 1) remainderInCents'
                   (newInstallmentDetails @
                      [newInstallment orderId i installmentValueCents due])))
      else Inr newInstallmentDetails)"
  by pat_completeness auto
termination
  by (relation "measure (\<lambda>(_, _, _, n, _, i, _, _). nat (n - i))") auto

declare installmentLoop.simps [simp del]

text \<open>The local constant \<open>totalInCents\<close>: \<open>Math.round(total * 100)\<close>.\<close>

definition totalInCents :: "rat \<Rightarrow> int" where
  "totalInCents totalv = js_round (fmul totalv 100)"

definition recalculateInstallments ::
  "(string \<Rightarrow> int \<Rightarrow> string option) \<Rightarrow> rat \<Rightarrow> int \<Rightarrow> string \<Rightarrow> string
     \<Rightarrow> error + installment list" where
  "recalculateInstallments addMonths totalv installmentsCount orderId firstDueDate =
     (if installmentsCount \<le> 0 \<or> double totalv < 0 then Inr []
      else
        (let baseInstallmentValueInCents =
               \<lfloor>fdiv (of_int (totalInCents totalv)) (of_int installmentsCount)\<rfloor>;
             remainderInCents = js_rem (totalInCents totalv) installmentsCount
         in installmentLoop addMonths orderId firstDueDate installmentsCount
              baseInstallmentValueInCents 0 remainderInCents []))"

section \<open>Signature verifier (\<open>src/app/api/stripe/webhook/route.ts\<close>)\<close>

text \<open>
  A header value is a byte string that the runtime hands over as a string of code units
  below 256; a HOL \<open>char\<close> is such a code unit. \<open>trim\<close> strips the white space
  of JavaScript that lies in this range: TAB, LF, VT, FF, CR, SPACE and NBSP.
\<close>

definition isWhiteSpace :: "char \<Rightarrow> bool" where
  "isWhiteSpace c = ((of_char c :: nat) \<in> {9, 10, 11, 12, 13, 32, 160})"

definition trim :: "string \<Rightarrow> string" where
  "trim s = rev (dropWhile isWhiteSpace (rev (dropWhile isWhiteSpace s)))"

text \<open>\<open>s.split(sep)\<close> for a one-character separator: the empty string gives one empty part.\<close>

fun split_on :: "char \<Rightarrow> string \<Rightarrow> string list" where
  "split_on sep [] = [[]]"
| "split_on sep (c # cs) =
     (if c = sep then [] # split_on sep cs
      else (case split_on sep cs of
              [] \<Rightarrow> [[c]]
            | p # ps \<Rightarrow> (c # p) # ps))"

definition startsWith :: "string \<Rightarrow> string \<Rightarrow> bool" where
  "startsWith p pre = (take (length pre) p = pre)"

text \<open>
  \<open>Buffer.from(s, 'utf8')\<close> on code units below 256: one byte below 128, two bytes from
  128 on.
\<close>

definition utf8_char :: "char \<Rightarrow> string" where
  "utf8_char c =
     (let n = (of_char c :: nat)
      in if n < 128 then [c] else [char_of (192 + n div 64), char_of (128 + n mod 64)])"

definition utf8 :: "string \<Rightarrow> string" where
  "utf8 s = concat (map utf8_char s)"

text \<open>\<open>crypto.timingSafeEqual\<close> throws when the two buffers differ in byte length.\<close>

definition timingSafeEqual :: "string \<Rightarrow> string \<Rightarrow> error + bool" where
  "timingSafeEqual a b =
     (if length a \<noteq> length b then Inl ERR_CRYPTO_TIMING_SAFE_EQUAL_LENGTH else Inr (a = b))"

definition safeEqualsHex :: "string \<Rightarrow> string \<Rightarrow> error + bool" where
  "safeEqualsHex a b =
     (let aBuf = utf8 a; bBuf = utf8 b
      in if length aBuf \<noteq> length bBuf then Inr False else timingSafeEqual aBuf bBuf)"

text \<open>\<open>Array.prototype.some\<close> with a callback that may throw: the first throw ends the scan.\<close>

fun someE :: "('a \<Rightarrow> error + bool) \<Rightarrow> 'a list \<Rightarrow> error + bool" where
  "someE f [] = Inr False"
| "someE f (x # xs) =
     (case f x of
        Inl e \<Rightarrow> Inl e
      | Inr True \<Rightarrow> Inr True
      | Inr False \<Rightarrow> someE f xs)"

text \<open>The three local constants \<open>parts\<close>, \<open>timestamp\<close> and \<open>signatures\<close>.\<close>

definition headerParts :: "string \<Rightarrow> string list" where
  "headerParts signatureHeader =
     filter (\<lambda>p. p \<noteq> []) (map trim (split_on CHR '','' signatureHeader))"

definition headerTimestamp :: "string \<Rightarrow> string" where
  "headerTimestamp signatureHeader =
     (case find (\<lambda>p. startsWith p ''t='') (headerParts signatureHeader) of
        None \<Rightarrow> []
      | Some p \<Rightarrow> drop 2 p)"

definition headerSignatures :: "string \<Rightarrow> string list" where
  "headerSignatures signatureHeader =
     map (drop 3) (filter (\<lambda>p. startsWith p ''v1='') (headerParts signatureHeader))"

text \<open>
  \<open>hmacSha256Hex secret message\<close> stands for
  \<open>createHmac('sha256', secret).update(message, 'utf8').digest('hex')\<close>.
\<close>

definition verifyStripeSignature ::
  "(string \<Rightarrow> string \<Rightarrow> string) \<Rightarrow> string \<Rightarrow> string \<Rightarrow> string \<Rightarrow> error + bool" where
  "verifyStripeSignature hmacSha256Hex payload signatureHeader webhookSecret =
     (let timestamp = headerTimestamp signatureHeader;
          signatures = headerSignatures signatureHeader
      in if timestamp = [] \<or> signatures = [] then Inr False
         else
           (let signedPayload = timestamp @ ''.'' @ payload;
                expected = hmacSha256Hex webhookSecret signedPayload
            in someE (\<lambda>sig. safeEqualsHex sig expected) signatures))"

section \<open>Orders and the document store\<close>

text \<open>
  The fields of an order document that the reconciliation code reads or writes; every
  other field of the document is the record's extension. A missing field is \<open>None\<close>;
  \<open>installmentDetails\<close> is \<open>None\<close> too when the stored value is not an array.
\<close>

record order =
  paymentStatus :: "status option"
  paymentProvider :: "string option"
  paymentSessionId :: "string option"
  installmentDetails :: "installment list option"

text \<open>The collection \<open>orders\<close>, keyed by document id.\<close>

type_synonym 'a orders = "string \<Rightarrow> 'a order_scheme option"

text \<open>The object handed to \<open>updateDoc\<close>: only the keys that are set are written.\<close>

record patch =
  patch_installmentDetails :: "installment list option"
  patch_paymentStatus :: "status option"
  patch_paymentProvider :: "string option"
  patch_paymentSessionId :: "string option"

definition applyPatch :: "patch \<Rightarrow> 'a order_scheme \<Rightarrow> 'a order_scheme" where
  "applyPatch p ord =
     ord\<lparr> installmentDetails :=
            (case patch_installmentDetails p of None \<Rightarrow> installmentDetails ord | Some v \<Rightarrow> Some v),
          paymentStatus :=
            (case patch_paymentStatus p of None \<Rightarrow> paymentStatus ord | Some v \<Rightarrow> Some v),
          paymentProvider :=
            (case patch_paymentProvider p of None \<Rightarrow> paymentProvider ord | Some v \<Rightarrow> Some v),
          paymentSessionId :=
            (case patch_paymentSessionId p of None \<Rightarrow> paymentSessionId ord | Some v \<Rightarrow> Some v) \<rparr>"

text \<open>An installment list that holds \<open>undefined\<close> somewhere: a key \<open>paymentDate: undefined\<close>.\<close>

definition hasUndefined :: "installment list \<Rightarrow> bool" where
  "hasUndefined ds = list_ex (\<lambda>i. paymentDate i = Undefined) ds"

text \<open>
  \<open>updateDoc(doc(db, 'orders', orderId), patch)\<close> of the Firestore library. The library
  first validates the data, inside the call: the stores are opened with \<open>getFirestore(app)\<close>,
  without \<open>ignoreUndefinedProperties\<close>, so a value \<open>undefined\<close> anywhere in the data is
  refused with an exception (\<open>Unsupported field value: undefined\<close>) and nothing is written;
  the exception is thrown by the call itself, before there is a promise that the caller's
  \<open>.catch\<close> could guard. The update of a document that does not exist is rejected through
  the promise, and every caller swallows that rejection, so the store stays as it was. The
  store is otherwise reliable: reads and writes of existing documents succeed, and one
  handler runs at a time.
\<close>

definition updateDoc :: "'a orders \<Rightarrow> string \<Rightarrow> patch \<Rightarrow> error + 'a orders" where
  "updateDoc db orderId p =
     (if (case patch_installmentDetails p of None \<Rightarrow> False | Some ds \<Rightarrow> hasUndefined ds)
      then Inl FirestoreInvalidData
      else Inr (case db orderId of
                  None \<Rightarrow> db
                | Some ord \<Rightarrow> db(orderId \<mapsto> applyPatch p ord)))"

text \<open>The store after a run that started on \<open>db\<close>: a run that throws has written nothing.\<close>

definition storeAfter :: "'a orders \<Rightarrow> error + 'a orders \<Rightarrow> 'a orders" where
  "storeAfter db r = (case r of Inl e \<Rightarrow> db | Inr db' \<Rightarrow> db')"

section \<open>Payment reconciler of the two webhooks\<close>

text \<open>
  The callback of \<open>installmentDetails.map\<close> in \<open>POST\<close> of
  \<open>src/app/api/stripe/webhook/route.ts\<close> (lines 118 to 144) and of the Mercado Pago
  webhook (\<open>src/unnamed/part_001\<close>, lines 108 to 134). The two texts differ in the payment
  method (\<open>'Stripe'\<close>, \<open>'MercadoPago'\<close>), in the prefix of the generated identifier
  (\<open>'stripe-'\<close>, \<open>'mercadopago-'\<close>) and in the name of the identifier
  (\<open>sessionId\<close>, \<open>paymentIdStr\<close>); these are the first three arguments. \<open>now\<close> is
  \<open>Date.now()\<close>. The second component of the result tells whether the call has set
  \<open>didUpdate\<close>. The new object always has the key \<open>paymentDate\<close>: when the installment is
  not paid, its value is \<open>inst?.paymentDate\<close>, which is \<open>undefined\<close> for an installment
  without the key.
\<close>

definition creditInstallment ::
  "string \<Rightarrow> string \<Rightarrow> string \<Rightarrow> int \<Rightarrow> rat \<Rightarrow> string \<Rightarrow> nat
     \<Rightarrow> installment \<Rightarrow> installment \<times> bool" where
  "creditInstallment method idPrefix externalId instNumber paid payDate now inst =
     (if installmentNumber inst \<noteq> instNumber then (inst, False)
      else
        (let existingPayments = payments inst
         in if externalId \<noteq> [] \<and> list_ex (\<lambda>p. id_pay p = externalId) existingPayments
            then (inst, False)
            else
              (let newPaidAmount = fadd (paidAmount inst) paid;
                   isPaid = (double (amount inst) \<le> fadd newPaidAmount (1 / 100))
               in (inst\<lparr> paidAmount := newPaidAmount,
                         status := (if isPaid then Pago else Pendente),
                         paymentDate :=
                           (if isPaid
                            then (case paymentDate inst of
                                    Str d \<Rightarrow> (if d = [] then Str payDate else Str d)
                                  | _ \<Rightarrow> Str payDate)
                            else (case paymentDate inst of
                                    Absent \<Rightarrow> Undefined
                                  | v \<Rightarrow> v)),
                         payments :=
                           existingPayments @
                             [\<lparr> id_pay =
                                  (if externalId \<noteq> [] then externalId
                                   else idPrefix @ show_nat now),
                                amount_pay = paid,
                                date_pay = payDate,
                                method_pay = method,
                                receivedBy = ''Sistema'' \<rparr>] \<rparr>,
                   True))))"

text \<open>
  The branch \<open>if (isInstallmentPayment && nextPaymentStatus === 'Pago')\<close> of both handlers:
  read the order, map the installments, and call \<open>updateDoc\<close> with the patch when
  \<open>didUpdate\<close> is set. A read that fails or finds no document gives the empty installment
  list.
\<close>

definition creditOrder ::
  "string \<Rightarrow> string \<Rightarrow> 'a orders \<Rightarrow> string \<Rightarrow> string \<Rightarrow> int \<Rightarrow> rat \<Rightarrow> string \<Rightarrow> nat
     \<Rightarrow> error + 'a orders" where
  "creditOrder method idPrefix db orderId externalId instNumber paid payDate now =
     (let details =
            (case db orderId of
               None \<Rightarrow> []
             | Some orderData \<Rightarrow>
                 (case installmentDetails orderData of None \<Rightarrow> [] | Some ds \<Rightarrow> ds));
          results =
            map (creditInstallment method idPrefix externalId instNumber paid payDate now) details;
          nextInstallments = map fst results;
          didUpdate = list_ex snd results
      in if didUpdate then
           (let allPaid = (nextInstallments \<noteq> [] \<and> list_all (\<lambda>i. status i = Pago) nextInstallments)
            in updateDoc db orderId
                 \<lparr> patch_installmentDetails = Some nextInstallments,
                   patch_paymentStatus = (if allPaid then Some Pago else None),
                   patch_paymentProvider = None,
                   patch_paymentSessionId = None \<rparr>)
         else Inr db)"

section \<open>HTTP responses\<close>

text \<open>
  \<open>NextResponse.json(body, { status })\<close>. The bodies are \<open>{ error }\<close> and
  \<open>{ received: true }\<close>.
\<close>

datatype body =
    ErrorBody string
  | Received

record response =
  status_code :: nat
  body :: body

text \<open>\<open>Date.now()\<close> and \<open>new Date().toISOString()\<close> at the time of the request.\<close>

record clock =
  now_ms :: nat
  now_iso :: string

text \<open>\<open>value || fallback\<close> on an optional string: missing and empty are both falsy.\<close>

definition orElse :: "string option \<Rightarrow> string \<Rightarrow> string" where
  "orElse v fallback = (case v of None \<Rightarrow> fallback | Some s \<Rightarrow> (if s = [] then fallback else s))"

section \<open>Stripe webhook (\<open>src/app/api/stripe/webhook/route.ts\<close>, \<open>POST\<close>)\<close>

text \<open>
  What the handler reads from the parsed event, after its own \<open>typeof\<close> guards:
  \<open>event_type\<close> is \<open>String(event?.type || '')\<close>; \<open>session_id\<close>, \<open>metadata_orderId\<close> and
  \<open>client_reference_id\<close> are present when the field is a string; \<open>payment_status\<close> is
  \<open>String(session?.payment_status || '')\<close>; \<open>session_installmentNumber\<close> is the result of
  \<open>Number.parseInt(installmentNumberRaw, 10)\<close>, \<open>None\<close> for \<open>NaN\<close>; \<open>amount_total\<close> is
  \<open>Number(session?.amount_total || 0)\<close>, a finite number; \<open>created\<close> is present when the
  field is a finite number.
\<close>

record stripe_event =
  event_type :: string
  session_id :: "string option"
  metadata_orderId :: "string option"
  client_reference_id :: "string option"
  payment_status :: string
  session_installmentNumber :: "int option"
  amount_total :: rat
  created :: "rat option"

definition paymentStatusFromStripe :: "string \<Rightarrow> status" where
  "paymentStatusFromStripe s =
     (if s = ''paid'' then Pago else if s = ''unpaid'' then Pendente else Pendente)"

definition stripe_sessionId :: "stripe_event \<Rightarrow> string" where
  "stripe_sessionId ev = (case session_id ev of Some s \<Rightarrow> s | None \<Rightarrow> [])"

definition stripe_orderId :: "stripe_event \<Rightarrow> string" where
  "stripe_orderId ev =
     (let fromMetadata = (case metadata_orderId ev of Some s \<Rightarrow> s | None \<Rightarrow> [])
      in if fromMetadata \<noteq> [] then fromMetadata
         else (case client_reference_id ev of Some s \<Rightarrow> s | None \<Rightarrow> []))"

definition stripe_shouldUpdate :: "stripe_event \<Rightarrow> bool" where
  "stripe_shouldUpdate ev =
     (event_type ev = ''checkout.session.completed'' \<or>
      event_type ev = ''checkout.session.async_payment_succeeded'' \<or>
      event_type ev = ''checkout.session.async_payment_failed'')"

definition stripe_nextPaymentStatus :: "stripe_event \<Rightarrow> status" where
  "stripe_nextPaymentStatus ev =
     (if event_type ev = ''checkout.session.async_payment_failed'' then Falhou
      else paymentStatusFromStripe (payment_status ev))"

text \<open>\<open>Number.isFinite(installmentNumber) && installmentNumber > 0\<close>.\<close>

definition isInstallmentPayment :: "int option \<Rightarrow> bool" where
  "isInstallmentPayment parsed = (case parsed of None \<Rightarrow> False | Some n \<Rightarrow> 0 < n)"

text \<open>
  Lines 91 to 161 of \<open>POST\<close>: everything under \<open>if (shouldUpdate && orderId)\<close>.
  \<open>isoOfSeconds c\<close> stands for \<open>new Date(c * 1000).toISOString()\<close>.
\<close>

definition stripeReconcile ::
  "(rat \<Rightarrow> string) \<Rightarrow> clock \<Rightarrow> 'a orders \<Rightarrow> stripe_event \<Rightarrow> error + 'a orders" where
  "stripeReconcile isoOfSeconds clk db ev =
     (let sessionId = stripe_sessionId ev;
          orderId = stripe_orderId ev
      in if stripe_shouldUpdate ev \<and> orderId \<noteq> [] then
           (let nextPaymentStatus = stripe_nextPaymentStatus ev
            in if isInstallmentPayment (session_installmentNumber ev) \<and> nextPaymentStatus = Pago
               then
                 (let paid = max 0 (fdiv (amount_total ev) 100);
                      payDate = (case created ev of
                                   Some c \<Rightarrow> isoOfSeconds c
                                 | None \<Rightarrow> now_iso clk)
                  in (case session_installmentNumber ev of
                        None \<Rightarrow> Inr db
                      | Some n \<Rightarrow>
                          creditOrder ''Stripe'' ''stripe-'' db orderId sessionId n paid payDate
                            (now_ms clk)))
               else
                 updateDoc db orderId
                   \<lparr> patch_installmentDetails = None,
                     patch_paymentStatus = Some nextPaymentStatus,
                     patch_paymentProvider = Some ''Stripe'',
                     patch_paymentSessionId = (if sessionId \<noteq> [] then Some sessionId else None) \<rparr>)
         else Inr db)"

record stripe_request =
  rawBody :: string
  stripe_signature :: "string option"

text \<open>
  \<open>parseJSON\<close> stands for \<open>JSON.parse\<close> followed by the field reads above; \<open>None\<close> when
  \<open>JSON.parse\<close> throws.
\<close>

definition stripe_POST ::
  "(string \<Rightarrow> string \<Rightarrow> string) \<Rightarrow> (string \<Rightarrow> stripe_event option) \<Rightarrow> (rat \<Rightarrow> string)
     \<Rightarrow> clock \<Rightarrow> string option \<Rightarrow> stripe_request \<Rightarrow> 'a orders
     \<Rightarrow> (error + response) \<times> 'a orders" where
  "stripe_POST hmacSha256Hex parseJSON isoOfSeconds clk webhookSecret req db =
     (if orElse webhookSecret [] = [] then
        (Inr \<lparr> status_code = 500,
               body = ErrorBody (''STRIPE_WEBHOOK_SECRET n'' @ [char_of (227 :: nat)] @
                                 ''o configurada.'') \<rparr>, db)
      else
        (case verifyStripeSignature hmacSha256Hex (rawBody req)
                (orElse (stripe_signature req) []) (orElse webhookSecret []) of
           Inl e \<Rightarrow> (Inl e, db)
         | Inr False \<Rightarrow>
             (Inr \<lparr> status_code = 400,
                    body = ErrorBody (''Assinatura inv'' @ [char_of (225 :: nat)] @ ''lida.'') \<rparr>,
              db)
         | Inr True \<Rightarrow>
             (case parseJSON (rawBody req) of
                None \<Rightarrow> (Inl SyntaxError, db)
              | Some ev \<Rightarrow>
                  (case stripeReconcile isoOfSeconds clk db ev of
                     Inl e \<Rightarrow> (Inl e, db)
                   | Inr db' \<Rightarrow> (Inr \<lparr> status_code = 200, body = Received \<rparr>, db')))))"

section \<open>Mercado Pago webhook (\<open>src/unnamed/part_001\<close>, \<open>POST\<close>)\<close>

text \<open>
  The JSON document of the gateway's \<open>/v1/payments/{id}\<close>, as far as the handler reads it.
  \<open>mp_message\<close>, \<open>mp_id\<close> and \<open>mp_status\<close> are the fields rendered as strings when
  present; \<open>mp_installmentNumber\<close> is the result of \<open>Number.parseInt\<close> on
  \<open>metadata.installmentNumber\<close>, \<open>None\<close> for \<open>NaN\<close>; \<open>transaction_amount\<close> is present
  when the field is, and is then a finite number; the two dates are present when they are
  strings.
\<close>

record mp_payment =
  mp_message :: "string option"
  mp_id :: "string option"
  mp_status :: "string option"
  transaction_amount :: "rat option"
  external_reference :: "string option"
  mp_installmentNumber :: "int option"
  date_approved :: "string option"
  date_created :: "string option"

text \<open>
  The answer of \<open>fetch\<close>: the status, and the body parsed as JSON (\<open>None\<close> when the body
  is not JSON: \<open>mpRes.json().catch(() => null)\<close>). \<open>ok\<close> is a status from 200 to 299.
\<close>

record fetch_response =
  res_status :: nat
  res_json :: "mp_payment option"

definition ok :: "fetch_response \<Rightarrow> bool" where
  "ok r = (200 \<le> res_status r \<and> res_status r \<le> 299)"

definition paymentStatusFromMercadoPago :: "string \<Rightarrow> status" where
  "paymentStatusFromMercadoPago s =
     (if s = ''approved'' then Pago
      else if s = ''rejected'' \<or> s = ''cancelled'' then Falhou
      else if s = ''refunded'' \<or> s = ''charged_back'' then Falhou
      else Pendente)"

text \<open>Lines 75 to 150 of \<open>POST\<close>: the reconciliation of a payment that was looked up.\<close>

definition mpReconcile :: "clock \<Rightarrow> 'a orders \<Rightarrow> mp_payment option \<Rightarrow> error + 'a orders" where
  "mpReconcile clk db payment =
     (let orderId = (case payment of
                       None \<Rightarrow> []
                     | Some p \<Rightarrow> (case external_reference p of Some s \<Rightarrow> s | None \<Rightarrow> []))
      in if orderId \<noteq> [] then
           (let nextPaymentStatus =
                  paymentStatusFromMercadoPago
                    (case payment of None \<Rightarrow> [] | Some p \<Rightarrow> orElse (mp_status p) []);
                parsed = (case payment of None \<Rightarrow> None | Some p \<Rightarrow> mp_installmentNumber p)
            in if isInstallmentPayment parsed \<and> nextPaymentStatus = Pago then
                 (let paid = max 0 (case payment of
                                      None \<Rightarrow> 0
                                    | Some p \<Rightarrow>
                                        (case transaction_amount p of
                                           None \<Rightarrow> 0
                                         | Some a \<Rightarrow> double a));
                      payDate =
                        (case payment of
                           None \<Rightarrow> now_iso clk
                         | Some p \<Rightarrow>
                             (case date_approved p of
                                Some d \<Rightarrow> d
                              | None \<Rightarrow>
                                  (case date_created p of Some d \<Rightarrow> d | None \<Rightarrow> now_iso clk)));
                      paymentIdStr =
                        trim (case payment of None \<Rightarrow> [] | Some p \<Rightarrow> orElse (mp_id p) [])
                  in (case parsed of
                        None \<Rightarrow> Inr db
                      | Some n \<Rightarrow>
                          creditOrder ''MercadoPago'' ''mercadopago-'' db orderId paymentIdStr n paid
                            payDate (now_ms clk)))
               else
                 updateDoc db orderId
                   \<lparr> patch_installmentDetails = None,
                     patch_paymentStatus = Some nextPaymentStatus,
                     patch_paymentProvider = Some ''MercadoPago'',
                     patch_paymentSessionId = None \<rparr>)
         else Inr db)"

text \<open>
  The request of the webhook: \<open>body_payment_id\<close> is
  \<open>String(payload?.data?.id || payload?.id || '')\<close>, where \<open>payload\<close> is \<open>null\<close> when the body
  is empty or not JSON; the other two are the query parameters \<open>data.id\<close> and \<open>id\<close>.
\<close>

record mp_request =
  body_payment_id :: string
  query_data_id :: "string option"
  query_id :: "string option"

text \<open>The local constant \<open>paymentId\<close> of \<open>POST\<close>.\<close>

definition webhookPaymentId :: "mp_request \<Rightarrow> string" where
  "webhookPaymentId req =
     (if body_payment_id req \<noteq> [] then body_payment_id req
      else if orElse (query_data_id req) [] \<noteq> [] then orElse (query_data_id req) []
      else orElse (query_id req) [])"

definition mercadoPagoLookupError :: string where
  "mercadoPagoLookupError = ''Erro ao consultar pagamento no Mercado Pago.''"

text \<open>
  \<open>fetch paymentId\<close> stands for the \<open>GET\<close> of
  \<open>https://api.mercadopago.com/v1/payments/{paymentId}\<close>; \<open>None\<close> when \<open>fetch\<close> rejects.
\<close>

definition mercadopago_POST ::
  "(string \<Rightarrow> fetch_response option) \<Rightarrow> clock \<Rightarrow> string option \<Rightarrow> mp_request \<Rightarrow> 'a orders
     \<Rightarrow> (error + response) \<times> 'a orders" where
  "mercadopago_POST fetch clk accessToken req db =
     (if orElse accessToken [] = [] then
        (Inr \<lparr> status_code = 500,
               body = ErrorBody (''MERCADOPAGO_ACCESS_TOKEN n'' @ [char_of (227 :: nat)] @
                                 ''o configurada.'') \<rparr>, db)
      else
        (let paymentId = webhookPaymentId req
         in if paymentId = [] then
              (Inr \<lparr> status_code = 400, body = ErrorBody ''payment_id ausente.'' \<rparr>, db)
            else
              (case fetch paymentId of
                 None \<Rightarrow> (Inl FetchFailed, db)
               | Some mpRes \<Rightarrow>
                   (let payment = res_json mpRes
                    in if \<not> ok mpRes then
                         (Inr \<lparr> status_code = 500,
                                body = ErrorBody
                                  (orElse (case payment of None \<Rightarrow> None | Some p \<Rightarrow> mp_message p)
                                     mercadoPagoLookupError) \<rparr>, db)
                       else
                         (case mpReconcile clk db payment of
                            Inl e \<Rightarrow> (Inl e, db)
                          | Inr db' \<Rightarrow>
                              (Inr \<lparr> status_code = 200, body = Received \<rparr>, db'))))))"

section \<open>Admin operations (\<open>src/context/AdminContext.tsx\<close>)\<close>

text \<open>
  \<open>orders.find(o => o.id === orderId)\<close> reads the admin's copy of the collection, which
  is the store here. The log entry and the toast are left out. \<open>userName\<close> is
  \<open>user?.name\<close>.
\<close>

text \<open>The callback of \<open>map\<close> in \<open>recordInstallmentPayment\<close>.\<close>

definition recordPaymentOn :: "int \<Rightarrow> payment \<Rightarrow> installment \<Rightarrow> installment" where
  "recordPaymentOn instNumber paymentWithUser inst =
     (if installmentNumber inst = instNumber then
        (let newPaidAmount = fadd (paidAmount inst) (amount_pay paymentWithUser);
             isPaid = (\<bar>fsub newPaidAmount (amount inst)\<bar> < double (1 / 100));
             newStatus = (if isPaid then Pago else Pendente);
             existingPayments = payments inst
         in inst\<lparr> status := newStatus,
                  paidAmount := newPaidAmount,
                  payments := existingPayments @ [paymentWithUser] \<rparr>)
      else inst)"

definition recordInstallmentPayment ::
  "'a orders \<Rightarrow> string \<Rightarrow> int \<Rightarrow> payment \<Rightarrow> string option \<Rightarrow> error + 'a orders" where
  "recordInstallmentPayment db orderId instNumber paymentData userName =
     (case db orderId of
        None \<Rightarrow> Inr db
      | Some ord \<Rightarrow>
          (let paymentWithUser = paymentData\<lparr> receivedBy := orElse userName ''Sistema'' \<rparr>;
               updatedInstallments =
                 map (recordPaymentOn instNumber paymentWithUser)
                   (case installmentDetails ord of None \<Rightarrow> [] | Some ds \<Rightarrow> ds)
           in updateDoc db orderId
                \<lparr> patch_installmentDetails = Some updatedInstallments,
                  patch_paymentStatus = None,
                  patch_paymentProvider = None,
                  patch_paymentSessionId = None \<rparr>))"

text \<open>The callback of \<open>map\<close> in \<open>reversePayment\<close>.\<close>

definition reversePaymentOn :: "int \<Rightarrow> string \<Rightarrow> installment \<Rightarrow> installment" where
  "reversePaymentOn instNumber paymentId inst =
     (if installmentNumber inst = instNumber then
        (case find (\<lambda>p. id_pay p = paymentId) (payments inst) of
           None \<Rightarrow> inst
         | Some paymentToReverse \<Rightarrow>
             (let reversedPaymentAmount = amount_pay paymentToReverse;
                  newPayments = filter (\<lambda>p. id_pay p \<noteq> paymentId) (payments inst);
                  newPaidAmount = fsub (paidAmount inst) reversedPaymentAmount;
                  newStatus = (if double (amount inst) \<le> newPaidAmount then Pago else Pendente)
              in inst\<lparr> payments := newPayments,
                       paidAmount := newPaidAmount,
                       status := newStatus \<rparr>))
      else inst)"

definition reversePayment :: "'a orders \<Rightarrow> string \<Rightarrow> int \<Rightarrow> string \<Rightarrow> error + 'a orders" where
  "reversePayment db orderId instNumber paymentId =
     (case db orderId of
        None \<Rightarrow> Inr db
      | Some ord \<Rightarrow>
          (let updatedInstallments =
                 map (reversePaymentOn instNumber paymentId)
                   (case installmentDetails ord of None \<Rightarrow> [] | Some ds \<Rightarrow> ds)
           in updateDoc db orderId
                \<lparr> patch_installmentDetails = Some updatedInstallments,
                  patch_paymentStatus = None,
                  patch_paymentProvider = None,
                  patch_paymentSessionId = None \<rparr>))"

section \<open>Predicates used to state the properties\<close>




text \<open>
  The cents that the schedule builder gives to the installment at position \<open>k\<close> (from 0),
  for a total of \<open>c\<close> cents in \<open>n\<close> installments.
\<close>

definition centsAt :: "int \<Rightarrow> int \<Rightarrow> nat \<Rightarrow> int" where
  "centsAt c n k = (if int k < c mod n then c div n + 1 else c div n)"

section \<open>Scenario data\<close>

text \<open>
  The scenario of the specification: an order with one installment of 50.00 that receives
  payments of 25.00. \<open>scenarioInstallment\<close> is the installment as the schedule builder
  creates it, \<open>scenarioStore\<close> the store that holds the order under the key \<open>order-1\<close>.
\<close>

definition scenarioInstallment :: installment where
  "scenarioInstallment =
     \<lparr> id_inst = ''inst-order-1-1'', installmentNumber = 1, amount = 50,
       dueDate = ''2026-01-31T00:00:00.000Z'', status = Pendente, paidAmount = 0,
       payments = [], paymentDate = Absent \<rparr>"

definition scenarioOrder :: order where
  "scenarioOrder =
     \<lparr> paymentStatus = Some Pendente, paymentProvider = None, paymentSessionId = None,
       installmentDetails = Some [scenarioInstallment] \<rparr>"

definition scenarioStore :: "unit orders" where
  "scenarioStore = [''order-1'' \<mapsto> scenarioOrder]"

definition scenarioClock :: clock where
  "scenarioClock = \<lparr> now_ms = 1767225600000, now_iso = ''2026-01-01T00:00:00.000Z'' \<rparr>"

text \<open>
  A \<open>checkout.session.completed\<close> event, paid, of 25.00 (2500 minor units) for installment
  1 of \<open>order-1\<close>, with the session identifier given.
\<close>

definition scenarioStripeEvent :: "string option \<Rightarrow> stripe_event" where
  "scenarioStripeEvent sid =
     \<lparr> event_type = ''checkout.session.completed'', session_id = sid,
       metadata_orderId = Some ''order-1'', client_reference_id = None,
       payment_status = ''paid'', session_installmentNumber = Some 1,
       amount_total = 2500, created = None \<rparr>"

text \<open>An approved Mercado Pago payment of 25.00 for installment 1 of \<open>order-1\<close>.\<close>

definition scenarioMpPayment :: "string option \<Rightarrow> mp_payment" where
  "scenarioMpPayment pid =
     \<lparr> mp_message = None, mp_id = pid, mp_status = Some ''approved'',
       transaction_amount = Some 25, external_reference = Some ''order-1'',
       mp_installmentNumber = Some 1, date_approved = Some ''2026-01-01T00:00:00.000Z'',
       date_created = Some ''2026-01-01T00:00:00.000Z'' \<rparr>"

text \<open>A payment record as the admin enters it, with the identifier and amount given.\<close>

definition scenarioPayment :: "string \<Rightarrow> rat \<Rightarrow> payment" where
  "scenarioPayment pid a =
     \<lparr> id_pay = pid, amount_pay = a, date_pay = ''2026-01-01T00:00:00.000Z'',
       method_pay = ''Dinheiro'', receivedBy = [] \<rparr>"

text \<open>
  The rendering of \<open>session.created\<close> used with the scenario events; they carry no
  \<open>created\<close> field, so that the time of the request is used instead.
\<close>

definition scenarioIsoOfSeconds :: "rat \<Rightarrow> string" where
  "scenarioIsoOfSeconds c = ''2026-01-01T00:00:00.000Z''"

text \<open>
  The store after a first payment of 25.00 with the identifier given was recorded by the
  admin: the installment is still \<open>Pendente\<close> and has no \<open>paymentDate\<close>.
\<close>

definition scenarioPaidStore :: "string \<Rightarrow> unit orders" where
  "scenarioPaidStore pid =
     [''order-1'' \<mapsto>
        scenarioOrder\<lparr> installmentDetails :=
          Some [scenarioInstallment\<lparr> paidAmount := 25,
                                     payments := [scenarioPayment pid 25] \<rparr>] \<rparr>]"

text \<open>
  The store after two payments of 25.00, \<open>p1\<close> and \<open>p2\<close>, have settled the installment and
  the order was stamped \<open>Pago\<close>.
\<close>

definition scenarioSettledStore :: "unit orders" where
  "scenarioSettledStore =
     [''order-1'' \<mapsto>
        scenarioOrder\<lparr> paymentStatus := Some Pago,
                       installmentDetails :=
          Some [scenarioInstallment\<lparr> paidAmount := 50, status := Pago,
                                     payments := [scenarioPayment ''p1'' 25,
                                                  scenarioPayment ''p2'' 25] \<rparr>] \<rparr>]"

text \<open>
  A gateway that answers every payment lookup with status 404 and the message
  \<open>Payment not found\<close>, and a webhook notification for the payment \<open>123\<close>.
\<close>

definition scenarioFetchNotFound :: "string \<Rightarrow> fetch_response option" where
  "scenarioFetchNotFound paymentId =
     Some \<lparr> res_status = 404,
            res_json = Some \<lparr> mp_message = Some ''Payment not found'', mp_id = None,
                               mp_status = None, transaction_amount = None,
                               external_reference = None, mp_installmentNumber = None,
                               date_approved = None, date_created = None \<rparr> \<rparr>"

definition scenarioNotification :: mp_request where
  "scenarioNotification = \<lparr> body_payment_id = ''123'', query_data_id = None, query_id = None \<rparr>"

text \<open>A calendar that shifts no date and fails on none, for the examples of the schedule.\<close>

definition scenarioAddMonths :: "string \<Rightarrow> int \<Rightarrow> string option" where
  "scenarioAddMonths firstDueDate i = Some firstDueDate"

section \<open>Properties of the JavaScript numbers\<close>

lemma pow2_pos: "0 < pow2 e"
  by (simp add: pow2_def)

lemma pow2_add: "pow2 (a + b) = pow2 a * pow2 b"
proof -
  have "(2::rat) powi (a + b) = 2 powi a * 2 powi b"
    by (simp add: power_int_add)
  moreover have "\<And>e. pow2 e = (2::rat) powi e"
    by (simp add: pow2_def power_int_def power_divide)
  ultimately show ?thesis by simp
qed

lemma pow2_powi: "pow2 e = (2::rat) powi e"
  by (simp add: pow2_def power_int_def power_divide)

lemma pow2_mono: "a \<le> b \<Longrightarrow> pow2 a \<le> pow2 b"
  by (simp add: pow2_powi power_int_increasing)

lemma pow2_less_iff: "pow2 a < pow2 b \<longleftrightarrow> a < b"
proof
  assume "pow2 a < pow2 b"
  then show "a < b"
    using pow2_mono [of b a] by (cases "a < b") auto
next
  assume "a < b"
  then show "pow2 a < pow2 b"
    by (simp add: pow2_powi power_int_strict_increasing)
qed

lemma pow2_nat: "pow2 (int k) = 2 ^ k"
  by (simp add: pow2_def)

lemma pow2_neg_nat: "pow2 (- int k) = 1 / 2 ^ k"
  by (simp add: pow2_powi power_int_minus field_simps)

lemma expo_bounds:
  assumes "0 < a"
  shows "pow2 (expo a) \<le> a" and "a < pow2 (expo a + 1)"
proof -
  have "pow2 (expo a) \<le> a \<and> a < pow2 (expo a + 1)"
  proof (cases "1 \<le> a")
    case True
    let ?n = "\<lfloor>a\<rfloor>"
    from True have n: "0 < ?n" by simp
    from bitlen_bounds [OF n] have lo: "2 ^ nat (bitlen ?n - 1) \<le> ?n" and hi: "?n < 2 ^ nat (bitlen ?n)"
      by blast+
    have b1: "1 \<le> bitlen ?n" using n by (simp add: bitlen_alt_def)
    have e: "expo a = bitlen ?n - 1" using True by (simp add: expo_def)
    have "pow2 (expo a) = of_int (2 ^ nat (bitlen ?n - 1))"
      using b1 by (simp add: e pow2_def)
    also have "\<dots> \<le> of_int ?n" using lo by (simp only: of_int_le_iff)
    also have "\<dots> \<le> a" by simp
    finally have l: "pow2 (expo a) \<le> a" .
    have "?n + 1 \<le> 2 ^ nat (bitlen ?n)" using hi by simp
    then have "(of_int (?n + 1) :: rat) \<le> of_int (2 ^ nat (bitlen ?n))"
      by (simp only: of_int_le_iff)
    moreover have "a < of_int (?n + 1)" by linarith
    ultimately have "a < of_int (2 ^ nat (bitlen ?n))" by linarith
    moreover have "pow2 (expo a + 1) = of_int (2 ^ nat (bitlen ?n))"
      using b1 by (simp add: e pow2_def)
    ultimately show ?thesis using l by simp
  next
    case False
    let ?y = "1 / a"
    let ?j = "\<lceil>?y\<rceil> - 1"
    from False assms have y1: "1 < ?y" by simp
    then have j: "0 < ?j" by linarith
    from bitlen_bounds [OF j] have lo: "2 ^ nat (bitlen ?j - 1) \<le> ?j" and hi: "?j < 2 ^ nat (bitlen ?j)"
      by blast+
    have b1: "1 \<le> bitlen ?j" using j by (simp add: bitlen_alt_def)
    have e: "expo a = - bitlen ?j" using False by (simp add: expo_def)
    have jy: "of_int ?j < ?y" by linarith
    have yj: "?y \<le> of_int (?j + 1)" by simp
    have "(of_int (2 ^ nat (bitlen ?j - 1)) :: rat) \<le> of_int ?j"
      using lo by (simp only: of_int_le_iff)
    with jy have l1: "(2::rat) ^ nat (bitlen ?j - 1) < ?y" by simp
    have "?j + 1 \<le> 2 ^ nat (bitlen ?j)" using hi by simp
    then have "(of_int (?j + 1) :: rat) \<le> of_int (2 ^ nat (bitlen ?j))"
      by (simp only: of_int_le_iff)
    with yj have "?y \<le> of_int (2 ^ nat (bitlen ?j))" by linarith
    then have u1: "?y \<le> (2::rat) ^ nat (bitlen ?j)" by simp
    have p1: "pow2 (expo a) = 1 / 2 ^ nat (bitlen ?j)"
      using b1 by (simp add: e pow2_def)
    have p2: "pow2 (expo a + 1) = 1 / 2 ^ nat (bitlen ?j - 1)"
    proof (cases "bitlen ?j = 1")
      case True then show ?thesis by (simp add: e pow2_def)
    next
      case False
      with b1 have "1 < bitlen ?j" by simp
      then show ?thesis by (simp add: e pow2_def nat_diff_distrib)
    qed
    from u1 assms have "1 / 2 ^ nat (bitlen ?j) \<le> a"
      by (simp add: field_simps)
    moreover from l1 assms have "a < 1 / 2 ^ nat (bitlen ?j - 1)"
      by (simp add: field_simps)
    ultimately show ?thesis by (simp add: p1 p2)
  qed
  then show "pow2 (expo a) \<le> a" and "a < pow2 (expo a + 1)" by blast+
qed

lemma roundHalfEven_bounds: "\<lfloor>m\<rfloor> \<le> roundHalfEven m \<and> roundHalfEven m \<le> \<lfloor>m\<rfloor> + 1"
  by (simp add: roundHalfEven_def Let_def)

lemma roundHalfEven_error: "\<bar>of_int (roundHalfEven m) - m\<bar> \<le> 1 / 2"
proof -
  have "of_int \<lfloor>m\<rfloor> \<le> m" and "m < of_int \<lfloor>m\<rfloor> + 1" by linarith+
  then show ?thesis
    by (auto simp: roundHalfEven_def Let_def abs_le_iff)
qed

lemma roundHalfEven_of_int: "roundHalfEven (of_int k) = k"
  by (simp add: roundHalfEven_def)

lemma roundHalfEven_le_int:
  assumes "m \<le> of_int z"
  shows "roundHalfEven m \<le> z"
proof (cases "m = of_int \<lfloor>m\<rfloor>")
  case True
  then have "roundHalfEven m = \<lfloor>m\<rfloor>"
    by (metis roundHalfEven_of_int)
  with assms show ?thesis by (simp add: floor_le_iff)
next
  case False
  have "of_int \<lfloor>m\<rfloor> \<le> m" by (rule of_int_floor_le)
  with False have "of_int \<lfloor>m\<rfloor> < m" by (metis less_le)
  with assms have "(of_int \<lfloor>m\<rfloor> :: rat) < of_int z" by linarith
  then have "\<lfloor>m\<rfloor> < z" by (simp only: of_int_less_iff)
  with roundHalfEven_bounds [of m] show ?thesis by linarith
qed

lemma roundHalfEven_ge_int:
  assumes "of_int z \<le> m"
  shows "z \<le> roundHalfEven m"
proof -
  from assms have "z \<le> \<lfloor>m\<rfloor>" by (simp add: le_floor_iff)
  with roundHalfEven_bounds [of m] show ?thesis by linarith
qed

lemma double_pos:
  assumes "0 < x"
  shows "double x =
    of_int (roundHalfEven (x / pow2 (max (expo x) (- 1022) - 52))) * pow2 (max (expo x) (- 1022) - 52)"
  using assms by (simp add: double_def Let_def)

lemma double_zero: "double 0 = 0"
  by (simp add: double_def)

lemma double_nonneg:
  assumes "0 \<le> x"
  shows "0 \<le> double x"
proof (cases "x = 0")
  case True then show ?thesis by (simp add: double_zero)
next
  case False
  with assms have x: "0 < x" by simp
  let ?u = "pow2 (max (expo x) (- 1022) - 52)"
  have "0 \<le> x / ?u" using x pow2_pos [of "max (expo x) (- 1022) - 52"] by simp
  then have "0 \<le> roundHalfEven (x / ?u)"
    using roundHalfEven_ge_int [of 0 "x / ?u"] by simp
  then show ?thesis
    using pow2_pos [of "max (expo x) (- 1022) - 52"] by (simp add: double_pos [OF x])
qed

lemma expo_less_53:
  assumes "0 < x" and "x < 2 ^ 53"
  shows "expo x < 53"
proof -
  have "pow2 (expo x) \<le> x" using assms(1) by (rule expo_bounds)
  with assms(2) have "pow2 (expo x) < pow2 53" by (simp add: pow2_def)
  then show ?thesis by (simp only: pow2_less_iff)
qed

lemma double_scaled:
  assumes "0 < x" and "x < 2 ^ 53"
  obtains k where "double x = of_int (roundHalfEven (x * 2 ^ k)) / 2 ^ k"
proof -
  let ?g = "max (expo x) (- 1022) - 52"
  have "?g \<le> 0" using expo_less_53 [OF assms] by simp
  then have g: "?g = - int (nat (- ?g))" by simp
  have u: "pow2 ?g = 1 / 2 ^ nat (- ?g)"
    by (subst g) (rule pow2_neg_nat)
  have "double x = of_int (roundHalfEven (x * 2 ^ nat (- ?g))) / 2 ^ nat (- ?g)"
    by (simp add: double_pos [OF assms(1)] u)
  then show ?thesis using that by blast
qed

lemma double_ge_int:
  assumes "0 < x" and "x < 2 ^ 53" and "of_int K \<le> x"
  shows "of_int K \<le> double x"
proof -
  from double_scaled [OF assms(1,2)] obtain k
    where d: "double x = of_int (roundHalfEven (x * 2 ^ k)) / 2 ^ k" .
  have "of_int (K * 2 ^ k) \<le> x * 2 ^ k" using assms(3) by simp
  then have "K * 2 ^ k \<le> roundHalfEven (x * 2 ^ k)" by (rule roundHalfEven_ge_int)
  then have "(of_int (K * 2 ^ k) :: rat) \<le> of_int (roundHalfEven (x * 2 ^ k))"
    by (simp only: of_int_le_iff)
  then show ?thesis by (simp add: d field_simps)
qed

lemma double_le_int:
  assumes "0 < x" and "x < 2 ^ 53" and "x \<le> of_int K"
  shows "double x \<le> of_int K"
proof -
  from double_scaled [OF assms(1,2)] obtain k
    where d: "double x = of_int (roundHalfEven (x * 2 ^ k)) / 2 ^ k" .
  have "x * 2 ^ k \<le> of_int (K * 2 ^ k)" using assms(3) by simp
  then have "roundHalfEven (x * 2 ^ k) \<le> K * 2 ^ k" by (rule roundHalfEven_le_int)
  then have "(of_int (roundHalfEven (x * 2 ^ k)) :: rat) \<le> of_int (K * 2 ^ k)"
    by (simp only: of_int_le_iff)
  then show ?thesis by (simp add: d field_simps)
qed

lemma double_of_int:
  assumes "0 \<le> k" and "k < 2 ^ 53"
  shows "double (of_int k) = of_int k"
proof (cases "k = 0")
  case True then show ?thesis by (simp add: double_zero)
next
  case False
  with assms have p: "(0::rat) < of_int k" by simp
  from assms(2) have "(of_int k :: rat) < of_int (2 ^ 53)" by (simp only: of_int_less_iff)
  then have b: "(of_int k :: rat) < 2 ^ 53" by simp
  from double_ge_int [OF p b, of k] double_le_int [OF p b, of k] show ?thesis by simp
qed

lemma double_numeral [simp]:
  "(numeral w :: int) < 9007199254740992 \<Longrightarrow> double (numeral w) = numeral w"
  using double_of_int [of "numeral w"] by simp

lemma double_one [simp]: "double 1 = 1"
  using double_of_int [of 1] by simp

lemma double_error:
  assumes "pow2 (- 1022) \<le> x"
  shows "\<bar>double x - x\<bar> \<le> x / 2 ^ 53"
proof -
  have x: "0 < x" using assms pow2_pos [of "- 1022"] by linarith
  have "pow2 (- 1022) < pow2 (expo x + 1)"
    using assms expo_bounds(2) [OF x] by linarith
  then have e: "- 1022 \<le> expo x" by (simp only: pow2_less_iff)
  let ?u = "pow2 (expo x - 52)"
  have u: "0 < ?u" by (rule pow2_pos)
  have d: "double x = of_int (roundHalfEven (x / ?u)) * ?u"
    using e by (simp add: double_pos [OF x] max_def)
  have "\<bar>double x - x\<bar> = \<bar>of_int (roundHalfEven (x / ?u)) - x / ?u\<bar> * ?u"
  proof -
    have "double x - x = (of_int (roundHalfEven (x / ?u)) - x / ?u) * ?u"
      using u by (simp add: d field_simps)
    then show ?thesis using u by (simp add: abs_mult)
  qed
  also have "\<dots> \<le> (1 / 2) * ?u"
    using roundHalfEven_error [of "x / ?u"] u by (intro mult_right_mono) simp_all
  also have "\<dots> = pow2 (expo x) / 2 ^ 53"
  proof -
    have "pow2 (expo x - 52) = pow2 (expo x) * pow2 (- 52)"
      using pow2_add [of "expo x" "- 52"] by simp
    then show ?thesis by (simp add: pow2_def)
  qed
  also have "\<dots> \<le> x / 2 ^ 53"
    using expo_bounds(1) [OF x] by (simp add: divide_right_mono)
  finally show ?thesis .
qed

lemma floor_rat_numeral: "\<lfloor>(numeral a :: rat) / numeral b\<rfloor> = numeral a div numeral b"
  using floor_divide_of_int_eq [of "numeral a" "numeral b", where ?'a = rat] by simp

lemma ceiling_rat_numeral: "\<lceil>(numeral a :: rat) / numeral b\<rceil> = - ((- numeral a) div numeral b)"
  using ceiling_divide_eq_div [of "numeral a" "numeral b", where ?'a = rat] by simp

lemma floor_half: "\<lfloor>(1::rat) / 2\<rfloor> = 0"
  by (rule floor_unique) simp_all

lemma double_minus: "double (- x) = - double x"
  by (simp add: double_def Let_def)

lemmas double_eval =
  double_pos double_minus double_zero expo_def compute_bitlen pow2_def roundHalfEven_def Let_def
  floor_rat_numeral ceiling_rat_numeral floor_half

lemma double_cent: "double (1 / 100) = 5764607523034235 / 576460752303423488"
  by (simp add: double_eval)

lemma floor_fdiv_int:
  assumes "0 \<le> c" and "c < 2 ^ 53" and "1 \<le> n" and "n < 2 ^ 53"
  shows "\<lfloor>fdiv (of_int c) (of_int n)\<rfloor> = c div n"
proof -
  have dc: "double (of_int c) = of_int c" using assms(1,2) by (rule double_of_int)
  have dn: "double (of_int n) = of_int n" using assms(3,4) by (intro double_of_int) simp_all
  let ?q = "(of_int c :: rat) / of_int n"
  have f: "fdiv (of_int c) (of_int n) = double ?q" by (simp add: fdiv_def dc dn)
  have n0: "(0::rat) < of_int n" using assms(3) by simp
  show ?thesis
  proof (cases "c = 0")
    case True then show ?thesis using f by (simp add: double_zero)
  next
    case False
    with assms(1) have c1: "1 \<le> c" by simp
    have q0: "0 < ?q" using c1 n0 by simp
    have cb: "(of_int c :: rat) < 2 ^ 53"
    proof -
      from assms(2) have "(of_int c :: rat) < of_int (2 ^ 53)" by (simp only: of_int_less_iff)
      then show ?thesis by simp
    qed
    have nb: "(of_int n :: rat) < 2 ^ 53"
    proof -
      from assms(4) have "(of_int n :: rat) < of_int (2 ^ 53)" by (simp only: of_int_less_iff)
      then show ?thesis by simp
    qed
    have n1: "(1::rat) \<le> of_int n" using assms(3) by simp
    have qc: "?q \<le> of_int c"
      using n1 c1 by (simp add: field_simps mult_le_cancel_left1)
    have qb: "?q < 2 ^ 53" using qc cb by linarith
    have lo: "of_int (c div n) \<le> ?q"
    proof -
      have "c div n * n \<le> c"
        using div_mult_mod_eq [of c n] pos_mod_sign [of n c] assms(3) by linarith
      then have "(of_int (c div n * n) :: rat) \<le> of_int c" by (simp only: of_int_le_iff)
      then show ?thesis using n0 by (simp add: field_simps)
    qed
    have lo': "of_int (c div n) \<le> double ?q" using q0 qb lo by (rule double_ge_int)
    have hi: "?q + 1 / of_int n \<le> of_int (c div n) + 1"
    proof -
      have "c mod n < n" using assms(3) by simp
      then have "c + 1 \<le> c div n * n + n"
        using div_mult_mod_eq [of c n] by linarith
      then have "(of_int (c + 1) :: rat) \<le> of_int (c div n * n + n)" by (simp only: of_int_le_iff)
      then show ?thesis using n0 by (simp add: field_simps)
    qed
    have small: "pow2 (- 1022) \<le> ?q"
    proof -
      have "(1::rat) / 2 ^ 53 \<le> 1 / of_int n" using nb n0 by (simp add: field_simps)
      moreover have "1 / of_int n \<le> ?q" using c1 n0 by (simp add: field_simps)
      moreover have "pow2 (- 1022) \<le> (1::rat) / 2 ^ 53"
        using pow2_mono [of "- 1022" "- 53"] by (simp add: pow2_def)
      ultimately show ?thesis by linarith
    qed
    have err: "\<bar>double ?q - ?q\<bar> \<le> ?q / 2 ^ 53" using small by (rule double_error)
    have "?q / 2 ^ 53 < 1 / of_int n"
    proof -
      have "of_int c / (2 ^ 53 :: rat) < 1" using cb by simp
      from this n0 have "of_int c / (2 ^ 53 :: rat) / of_int n < 1 / of_int n"
        by (rule divide_strict_right_mono)
      then show ?thesis by (simp add: field_simps)
    qed
    with err hi have hi': "double ?q < of_int (c div n) + 1" by linarith
    show ?thesis unfolding f using lo' hi' by (intro floor_unique)
  qed
qed

lemma totalInCents_bounds:
  assumes "0 \<le> t" and "t < 2 ^ 45"
  shows "0 \<le> totalInCents t" and "totalInCents t < 2 ^ 53"
proof -
  have d0: "0 \<le> double t" using assms(1) by (rule double_nonneg)
  have d1: "double t \<le> 2 ^ 45"
  proof (cases "t = 0")
    case True then show ?thesis by (simp add: double_zero)
  next
    case False
    with assms(1) have "0 < t" by simp
    moreover have "t < 2 ^ 53" using assms(2) by simp
    moreover have "t \<le> of_int (2 ^ 45)" using assms(2) by simp
    ultimately have "double t \<le> of_int (2 ^ 45)" by (rule double_le_int)
    then show ?thesis by simp
  qed
  let ?p = "double t * 100"
  have f: "fmul t 100 = double ?p" by (simp add: fmul_def)
  have p0: "0 \<le> ?p" using d0 by simp
  have p1: "?p \<le> of_int (100 * 2 ^ 45)" using d1 by simp
  have r0: "0 \<le> double ?p" using p0 by (rule double_nonneg)
  have r1: "double ?p \<le> of_int (100 * 2 ^ 45)"
  proof (cases "?p = 0")
    case True then show ?thesis by (simp add: double_zero)
  next
    case False
    with p0 have "0 < ?p" by simp
    moreover have "?p < 2 ^ 53" using p1 by simp
    ultimately show ?thesis using p1 by (rule double_le_int)
  qed
  show "0 \<le> totalInCents t"
    using r0 by (simp add: totalInCents_def js_round_def f)
  have "\<lfloor>double ?p + 1 / 2\<rfloor> \<le> 100 * 2 ^ 45"
    using r1 by (simp add: floor_le_iff)
  then show "totalInCents t < 2 ^ 53"
    by (simp add: totalInCents_def js_round_def f)
qed

lemma double_error_bounds:
  assumes "pow2 (- 1022) \<le> x"
  shows "double x \<le> x + x / 9007199254740992" and "x - x / 9007199254740992 \<le> double x"
proof -
  note e = double_error [OF assms]
  show "double x \<le> x + x / 9007199254740992" using abs_le_D1 [OF e] by simp
  show "x - x / 9007199254740992 \<le> double x" using abs_le_D2 [OF e] by simp
qed

lemma totalInCents_whole_cents:
  assumes "0 \<le> k" and "k < 2 ^ 50"
  shows "totalInCents (of_int k / 100) = k"
proof (cases "k = 0")
  case True
  then show ?thesis by (simp add: totalInCents_def js_round_def fmul_def double_zero floor_half)
next
  case False
  define K where "K = (of_int k :: rat)"
  define d1 where "d1 = double (K / 100)"
  define d2 where "d2 = double (d1 * 100)"
  from False assms(1) have k1: "1 \<le> K" by (simp add: K_def)
  have kb: "K < 1125899906842624"
  proof -
    from assms(2) have "(of_int k :: rat) < of_int (2 ^ 50)" by (simp only: of_int_less_iff)
    then show ?thesis by (simp add: K_def)
  qed
  have tiny: "pow2 (- 1022) \<le> (1::rat) / 100"
  proof -
    have "pow2 (- 1022) \<le> pow2 (- 7)" by (rule pow2_mono) simp
    then show ?thesis by (simp add: pow2_def)
  qed
  have sx: "pow2 (- 1022) \<le> K / 100" using tiny k1 by linarith
  note e1 = double_error_bounds [OF sx, folded d1_def]
  have sp: "pow2 (- 1022) \<le> d1 * 100" using tiny k1 e1 by linarith
  note e2 = double_error_bounds [OF sp, folded d2_def]
  have "of_int k \<le> d2 + 1 / 2" and "d2 + 1 / 2 < of_int k + 1"
    using e1 e2 k1 kb unfolding K_def [symmetric] by linarith+
  then have "\<lfloor>d2 + 1 / 2\<rfloor> = k" by (rule floor_unique)
  then show ?thesis by (simp add: totalInCents_def js_round_def fmul_def d2_def d1_def K_def)
qed

section \<open>Properties of the schedule builder\<close>

lemma installmentLoop_unfold:
  "0 \<le> i \<Longrightarrow> \<forall>k. i \<le> k \<and> k < n \<longrightarrow> am fd k \<noteq> None \<Longrightarrow>
   installmentLoop am oid fd n b i r acc =
     Inr (acc @ map (\<lambda>k. newInstallment oid (int k) (if int k - i < r then b + 1 else b)
                          (the (am fd (int k)))) [nat i..<nat n])"
proof (induction am oid fd n b i r acc rule: installmentLoop.induct)
  case (1 am oid fd n b i r acc)
  show ?case
  proof (cases "i < n")
    case False
    then show ?thesis by (simp add: installmentLoop.simps [of _ _ _ n b i])
  next
    case True
    with "1.prems" obtain due where due: "am fd i = Some due" by auto
    from True "1.prems" have upt: "[nat i..<nat n] = nat i # [nat (i + 1)..<nat n]"
      by (simp add: upt_conv_Cons nat_add_distrib)
    have ih: "installmentLoop am oid fd n b (i + 1) (if r > 0 then r - 1 else r)
        (acc @ [newInstallment oid i (if r > 0 then b + 1 else b) due]) =
      Inr ((acc @ [newInstallment oid i (if r > 0 then b + 1 else b) due]) @
        map (\<lambda>k. newInstallment oid (int k)
              (if int k - (i + 1) < (if r > 0 then r - 1 else r) then b + 1 else b)
              (the (am fd (int k))))
          [nat (i + 1)..<nat n])"
      using "1.IH" [OF True refl refl due] "1.prems" by simp
    have tl: "map (\<lambda>k. newInstallment oid (int k)
              (if int k - (i + 1) < (if r > 0 then r - 1 else r) then b + 1 else b)
              (the (am fd (int k))))
          [nat (i + 1)..<nat n]
       = map (\<lambda>k. newInstallment oid (int k) (if int k - i < r then b + 1 else b)
                     (the (am fd (int k)))) [nat (i + 1)..<nat n]"
      using "1.prems" by (intro map_cong refl) auto
    show ?thesis
      using True "1.prems" ih due
      by (simp add: installmentLoop.simps [of _ _ _ n b i] upt tl Let_def)
  qed
qed

lemma installmentLoop_RangeError:
  "0 \<le> i \<Longrightarrow> i \<le> j \<Longrightarrow> j < n \<Longrightarrow> am fd j = None \<Longrightarrow>
   installmentLoop am oid fd n b i r acc = Inl RangeError"
proof (induction am oid fd n b i r acc rule: installmentLoop.induct)
  case (1 am oid fd n b i r acc)
  from "1.prems" have lt: "i < n" by simp
  show ?case
  proof (cases "am fd i")
    case None
    with lt show ?thesis by (simp add: installmentLoop.simps [of _ _ _ n b i] Let_def)
  next
    case (Some due)
    with "1.prems" have "i \<noteq> j" by auto
    with "1.prems" have "i + 1 \<le> j" by simp
    with "1.IH" [OF lt refl refl Some] "1.prems"
    have "installmentLoop am oid fd n b (i + 1) (if r > 0 then r - 1 else r)
        (acc @ [newInstallment oid i (if r > 0 then b + 1 else b) due]) = Inl RangeError"
      by simp
    with lt Some show ?thesis by (simp add: installmentLoop.simps [of _ _ _ n b i] Let_def)
  qed
qed

lemma sum_extra_cent: "r \<le> m \<Longrightarrow> (\<Sum>k<m. if k < r then 1 else 0 :: int) = int r"
proof (induction m)
  case 0 then show ?case by simp
next
  case (Suc m)
  show ?case
  proof (cases "r = Suc m")
    case True then show ?thesis by simp
  next
    case False
    with Suc.prems have "r \<le> m" by simp
    with Suc.IH show ?thesis by simp
  qed
qed

lemma js_rem_nonneg: "0 \<le> a \<Longrightarrow> 0 < b \<Longrightarrow> js_rem a b = a mod b"
  by (cases "a = 0") (simp_all add: js_rem_def)

lemma centsAt_sum:
  assumes "0 < n"
  shows "(\<Sum>k<nat n. centsAt c n k) = c"
proof -
  let ?m = "nat n" and ?r = "nat (c mod n)"
  have rm: "?r \<le> ?m" using assms by (simp add: nat_le_iff less_imp_le)
  have rr: "int ?r = c mod n" using assms by simp
  have "(\<Sum>k<?m. centsAt c n k) = (\<Sum>k<?m. c div n + (if k < ?r then 1 else 0))"
    using assms by (intro sum.cong refl) (auto simp: centsAt_def)
  also have "\<dots> = int ?m * (c div n) + int ?r"
    by (simp add: sum.distrib sum_extra_cent [OF rm])
  also have "\<dots> = c" using assms by (simp add: rr)
  finally show ?thesis .
qed

lemma centsAt_close: "\<bar>centsAt c n j - centsAt c n k\<bar> \<le> 1"
  by (simp add: centsAt_def)

lemma centsAt_nonneg: "0 \<le> c \<Longrightarrow> 0 < n \<Longrightarrow> 0 \<le> centsAt c n k"
  by (simp add: centsAt_def pos_imp_zdiv_nonneg_iff)

lemma recalculateInstallments_eq:
  assumes "0 \<le> t" and "t < 2 ^ 45" and "1 \<le> n" and "n < 2 ^ 53"
    and "\<forall>k. 0 \<le> k \<and> k < n \<longrightarrow> am fd k \<noteq> None"
  shows "recalculateInstallments am t n oid fd =
           Inr (map (\<lambda>k. newInstallment oid (int k) (centsAt (totalInCents t) n k)
                          (the (am fd (int k)))) [0..<nat n])"
proof -
  note c = totalInCents_bounds [OF assms(1,2)]
  have b: "\<lfloor>fdiv (of_int (totalInCents t)) (of_int n)\<rfloor> = totalInCents t div n"
    using c assms(3,4) by (rule floor_fdiv_int)
  have r: "js_rem (totalInCents t) n = totalInCents t mod n"
    using c(1) assms(3) by (intro js_rem_nonneg) simp_all
  have g: "\<not> double t < 0" using double_nonneg [OF assms(1)] by simp
  have u: "installmentLoop am oid fd n (totalInCents t div n) 0 (totalInCents t mod n) [] =
      Inr ([] @ map (\<lambda>k. newInstallment oid (int k)
             (if int k - 0 < totalInCents t mod n then totalInCents t div n + 1
              else totalInCents t div n) (the (am fd (int k)))) [nat 0..<nat n])"
    using assms(5) by (intro installmentLoop_unfold) simp_all
  show ?thesis
    using assms(3) g by (simp add: recalculateInstallments_def Let_def b r u centsAt_def)
qed

lemma recalculateInstallments_RangeError:
  assumes "0 \<le> t" and "1 \<le> n" and "0 \<le> j" and "j < n" and "am fd j = None"
  shows "recalculateInstallments am t n oid fd = Inl RangeError"
proof -
  have g: "\<not> double t < 0" using double_nonneg [OF assms(1)] by simp
  show ?thesis
    using assms(2) g
      installmentLoop_RangeError [where i = 0 and j = j and n = n and am = am and fd = fd,
        OF _ assms(3,4,5)]
    by (simp add: recalculateInstallments_def Let_def)
qed

lemma totalInCents_100: "totalInCents 100 = 10000"
  using totalInCents_whole_cents [of 10000] by simp

text \<open>
  Claim C4, as it holds of the code. For a total \<open>t\<close> with \<open>0 \<le> t < 2 ^ 43\<close>, a count
  \<open>n \<ge> 1\<close> (so every count from 1 to 36) and a first due date from which every due date
  of the schedule is valid, \<open>recalculateInstallments\<close> returns \<open>n\<close> installments, numbered
  from 1 in order. With \<open>c = Math.round(t * 100)\<close>, the cents computed on doubles, the
  installment at position \<open>k\<close> (from 0) has the amount \<open>centsAt c n k / 100\<close>: \<open>c div n\<close>
  cents, and one more exactly when \<open>k\<close> is below \<open>c mod n\<close>. These cents sum to \<open>c\<close>, and any
  two of them differ by at most one. When \<open>t\<close> is a whole number of cents, \<open>c\<close> is that
  number, so the cents sum to the total. A total of 100.00 in 3 installments gives 33.34,
  33.33, 33.33.
\<close>

theorem recalculateInstallments_rounding_exact:
  assumes "0 \<le> t" and "t < 2 ^ 43" and "1 \<le> n" and "n < 2 ^ 53"
    and "\<forall>k. 0 \<le> k \<and> k < n \<longrightarrow> addMonths fd k \<noteq> None"
  shows "(\<exists>xs. recalculateInstallments addMonths t n oid fd = Inr xs
            \<and> length xs = nat n
            \<and> (\<forall>k < nat n.
                  installmentNumber (xs ! k) = int k + 1
                \<and> amount (xs ! k) = fdiv (of_int (centsAt (totalInCents t) n k)) 100
                \<and> dueDate (xs ! k) = the (addMonths fd (int k))
                \<and> status (xs ! k) = Pendente \<and> paidAmount (xs ! k) = 0
                \<and> payments (xs ! k) = [] \<and> paymentDate (xs ! k) = Absent))
       \<and> (\<Sum>k<nat n. centsAt (totalInCents t) n k) = totalInCents t
       \<and> (\<forall>j k. \<bar>centsAt (totalInCents t) n j - centsAt (totalInCents t) n k\<bar> \<le> 1)
       \<and> (\<forall>c. t = of_int c / 100 \<longrightarrow> totalInCents t = c)
       \<and> (\<exists>xs. recalculateInstallments scenarioAddMonths 100 3 oid fd = Inr xs
            \<and> map amount xs = [double (3334 / 100), double (3333 / 100), double (3333 / 100)])"
proof -
  let ?c = "totalInCents t"
  have t45: "t < 2 ^ 45" using assms(2) by simp
  note eq = recalculateInstallments_eq [where am = addMonths and fd = fd and oid = oid,
      OF assms(1) t45 assms(3,4,5)]
  have shape: "\<exists>xs. recalculateInstallments addMonths t n oid fd = Inr xs
            \<and> length xs = nat n
            \<and> (\<forall>k < nat n.
                  installmentNumber (xs ! k) = int k + 1
                \<and> amount (xs ! k) = fdiv (of_int (centsAt ?c n k)) 100
                \<and> dueDate (xs ! k) = the (addMonths fd (int k))
                \<and> status (xs ! k) = Pendente \<and> paidAmount (xs ! k) = 0
                \<and> payments (xs ! k) = [] \<and> paymentDate (xs ! k) = Absent)"
    by (simp add: eq newInstallment_def)
  have sum: "(\<Sum>k<nat n. centsAt ?c n k) = ?c"
    using assms(3) by (intro centsAt_sum) simp
  have close: "\<forall>j k. \<bar>centsAt ?c n j - centsAt ?c n k\<bar> \<le> 1"
    by (simp add: centsAt_close)
  have whole: "\<forall>c. t = of_int c / 100 \<longrightarrow> ?c = c"
  proof (intro allI impI)
    fix c :: int
    assume t: "t = of_int c / 100"
    with assms(1) have "(0::rat) \<le> of_int c" by simp
    then have c0: "0 \<le> c" by (simp only: of_int_0_le_iff)
    from t assms(2) have "(of_int c :: rat) < of_int (2 ^ 50)" by simp
    then have "c < 2 ^ 50" by (simp only: of_int_less_iff)
    with c0 show "?c = c" unfolding t by (rule totalInCents_whole_cents)
  qed
  have am: "\<forall>k. 0 \<le> k \<and> k < 3 \<longrightarrow> scenarioAddMonths fd k \<noteq> None"
    by (simp add: scenarioAddMonths_def)
  have ex: "\<exists>xs. recalculateInstallments scenarioAddMonths 100 3 oid fd = Inr xs
            \<and> map amount xs = [double (3334 / 100), double (3333 / 100), double (3333 / 100)]"
    using recalculateInstallments_eq [where t = 100 and n = 3 and am = scenarioAddMonths
        and fd = fd and oid = oid, OF _ _ _ _ am]
    by (simp add: totalInCents_100 newInstallment_def centsAt_def fdiv_def upt_rec numeral_3_eq_3)
  from shape sum close whole ex show ?thesis by blast
qed

theorem recalculateInstallments_rounding_exact_witness:
  "(0::rat) \<le> 100 \<and> (100::rat) < 2 ^ 43 \<and> (1::int) \<le> 3 \<and> (3::int) < 2 ^ 53
   \<and> scenarioAddMonths ''2026-01-31T00:00:00.000Z'' 0 \<noteq> None
   \<and> (\<exists>xs. recalculateInstallments scenarioAddMonths 100 3 ''order-1''
               ''2026-01-31T00:00:00.000Z'' = Inr xs
          \<and> length xs = 3
          \<and> map installmentNumber xs = [1, 2, 3]
          \<and> map amount xs = [double (3334 / 100), double (3333 / 100), double (3333 / 100)])
   \<and> totalInCents 100 = 10000
   \<and> centsAt 10000 3 0 + centsAt 10000 3 1 + centsAt 10000 3 2 = 10000"
proof -
  have h1: "(0::rat) \<le> 100" and h2: "(100::rat) < 2 ^ 43"
    and h3: "(1::int) \<le> 3" and h4: "(3::int) < 2 ^ 53" by simp_all
  have h5: "\<forall>k. 0 \<le> k \<and> k < 3 \<longrightarrow> scenarioAddMonths ''2026-01-31T00:00:00.000Z'' k \<noteq> None"
    by (simp add: scenarioAddMonths_def)
  from recalculateInstallments_rounding_exact [where addMonths = scenarioAddMonths
      and fd = "''2026-01-31T00:00:00.000Z''" and oid = "''order-1''", OF h1 h2 h3 h4 h5]
  obtain xs where xs: "recalculateInstallments scenarioAddMonths 100 3 ''order-1''
               ''2026-01-31T00:00:00.000Z'' = Inr xs"
    and len: "length xs = nat 3"
    and nth: "\<forall>k < nat 3. installmentNumber (xs ! k) = int k + 1"
    and ams: "\<forall>k < nat 3. amount (xs ! k) = fdiv (of_int (centsAt (totalInCents 100) 3 k)) 100"
    and c: "\<forall>c. (100::rat) = of_int c / 100 \<longrightarrow> totalInCents 100 = c"
    by blast
  from c have c100: "totalInCents 100 = 10000" by simp
  from len have l3: "length xs = 3" by simp
  then obtain a b d where abd: "xs = [a, b, d]"
    by (cases xs; simp) (metis (no_types) length_0_conv length_Suc_conv numeral_3_eq_3 list.inject l3)
  have n: "map installmentNumber xs = [1, 2, 3]"
    using nth [rule_format, of 0] nth [rule_format, of 1] nth [rule_format, of 2]
    by (simp add: abd)
  have a: "map amount xs = [double (3334 / 100), double (3333 / 100), double (3333 / 100)]"
    using ams [rule_format, of 0] ams [rule_format, of 1] ams [rule_format, of 2]
    by (simp add: abd c100 centsAt_def fdiv_def)
  have s: "centsAt 10000 3 0 + centsAt 10000 3 1 + centsAt 10000 3 2 = 10000"
    by (simp add: centsAt_def)
  from xs l3 n a c100 s h1 h2 h3 h4 show ?thesis by (simp add: scenarioAddMonths_def)
qed

text \<open>
  Claim C4 as it was stated fails. The cents are \<open>Math.round(total * 100)\<close> of doubles, not
  the total rounded to two decimals: for the literal 1.005 the code counts 100 cents, where
  the decimal 1.005 rounded half up has 101, and one installment of it has the amount 1.00;
  for the literal 1.115 the code counts 112 cents, where the double that the literal denotes
  lies below 1.115 and rounds to 111. And when the first due date is not a date, no schedule
  is returned: the function throws a \<open>RangeError\<close>.
\<close>

theorem recalculateInstallments_cents_not_decimal_rounding:
  "totalInCents (1005 / 1000) = 100
   \<and> \<lfloor>(1005 / 1000 :: rat) * 100 + 1 / 2\<rfloor> = 101
   \<and> (\<exists>xs. recalculateInstallments scenarioAddMonths (1005 / 1000) 1 ''order-1''
               ''2026-01-31T00:00:00.000Z'' = Inr xs \<and> map amount xs = [1])
   \<and> totalInCents (1115 / 1000) = 112
   \<and> \<lfloor>double (1115 / 1000) * 100 + 1 / 2\<rfloor> = 111
   \<and> recalculateInstallments (\<lambda>firstDueDate i. None) 100 3 ''order-1'' ''31/01/2026''
       = Inl RangeError"
proof -
  have c1: "totalInCents (1005 / 1000) = 100"
    by (simp add: totalInCents_def js_round_def fmul_def double_eval)
  have c2: "\<lfloor>(1005 / 1000 :: rat) * 100 + 1 / 2\<rfloor> = 101"
    by (simp add: floor_rat_numeral)
  have am: "\<forall>k. 0 \<le> k \<and> k < 1 \<longrightarrow> scenarioAddMonths ''2026-01-31T00:00:00.000Z'' k \<noteq> None"
    by (simp add: scenarioAddMonths_def)
  have c3: "\<exists>xs. recalculateInstallments scenarioAddMonths (1005 / 1000) 1 ''order-1''
               ''2026-01-31T00:00:00.000Z'' = Inr xs \<and> map amount xs = [1]"
    using recalculateInstallments_eq [where t = "1005 / 1000" and n = 1
        and am = scenarioAddMonths and fd = "''2026-01-31T00:00:00.000Z''"
        and oid = "''order-1''", OF _ _ _ _ am] c1
    by (simp add: newInstallment_def centsAt_def fdiv_def)
  have c4: "totalInCents (1115 / 1000) = 112"
    by (simp add: totalInCents_def js_round_def fmul_def double_eval)
  have c5: "\<lfloor>double (1115 / 1000) * 100 + 1 / 2\<rfloor> = 111"
    by (simp add: double_eval)
  have c6: "recalculateInstallments (\<lambda>firstDueDate i. None) 100 3 ''order-1'' ''31/01/2026''
       = Inl RangeError"
    by (rule recalculateInstallments_RangeError [where j = 0]) simp_all
  from c1 c2 c3 c4 c5 c6 show ?thesis by blast
qed

section \<open>Properties of the signature verifier\<close>

lemma utf8_char_not_Nil: "utf8_char c \<noteq> []"
  by (simp add: utf8_char_def Let_def)

lemma of_char_less_256: "(of_char c :: nat) < 256"
  by (rule of_char_mod_256 [where ?'a = nat, THEN subst]) simp

lemma utf8_char_append_eq:
  assumes "utf8_char c @ r = utf8_char d @ s"
  shows "c = d \<and> r = s"
proof -
  let ?n = "of_char c :: nat" and ?m = "of_char d :: nat"
  have n: "?n < 256" and m: "?m < 256" by (rule of_char_less_256)+
  consider (ll) "?n < 128" "?m < 128" | (lh) "?n < 128" "\<not> ?m < 128"
    | (hl) "\<not> ?n < 128" "?m < 128" | (hh) "\<not> ?n < 128" "\<not> ?m < 128"
    by blast
  then show ?thesis
  proof cases
    case ll
    with assms show ?thesis by (simp add: utf8_char_def)
  next
    case lh
    with assms have "c = char_of (192 + ?m div 64)" by (simp add: utf8_char_def Let_def)
    then have "?n = (192 + ?m div 64) mod 256" by (metis of_char_of)
    with lh m show ?thesis by simp
  next
    case hl
    with assms have "d = char_of (192 + ?n div 64)" by (simp add: utf8_char_def Let_def)
    then have "?m = (192 + ?n div 64) mod 256" by (metis of_char_of)
    with hl n show ?thesis by simp
  next
    case hh
    with assms have e1: "char_of (192 + ?n div 64) = (char_of (192 + ?m div 64) :: char)"
      and e2: "char_of (128 + ?n mod 64) = (char_of (128 + ?m mod 64) :: char)"
      and rs: "r = s"
      by (simp_all add: utf8_char_def Let_def)
    from e1 have "(192 + ?n div 64) mod 256 = (192 + ?m div 64) mod 256"
      by (metis of_char_of)
    moreover have "?n div 64 < 4" and "?m div 64 < 4"
      by (rule less_mult_imp_div_less, simp add: of_char_less_256)+
    ultimately have d: "?n div 64 = ?m div 64" by simp
    from e2 have "(128 + ?n mod 64) mod 256 = (128 + ?m mod 64) mod 256"
      by (metis of_char_of)
    then have md: "?n mod 64 = ?m mod 64" by simp
    from d md have "?n = ?m" by (metis div_mult_mod_eq)
    then have "c = d" by simp
    with rs show ?thesis by simp
  qed
qed

lemma utf8_inj: "utf8 a = utf8 b \<Longrightarrow> a = b"
proof (induction a arbitrary: b)
  case Nil
  then show ?case by (cases b) (simp_all add: utf8_def utf8_char_not_Nil)
next
  case (Cons c a)
  show ?case
  proof (cases b)
    case Nil
    with Cons.prems show ?thesis by (simp add: utf8_def utf8_char_not_Nil)
  next
    case (Cons d b')
    with Cons.prems have "utf8_char c @ utf8 a = utf8_char d @ utf8 b'"
      by (simp add: utf8_def)
    then have "c = d" and "utf8 a = utf8 b'" by (auto dest: utf8_char_append_eq)
    with Cons.IH Cons show ?thesis by simp
  qed
qed

lemma safeEqualsHex_eq: "safeEqualsHex a b = Inr (a = b)"
  by (auto simp: safeEqualsHex_def timingSafeEqual_def Let_def dest: utf8_inj)

lemma someE_safeEqualsHex:
  "someE (\<lambda>sig. safeEqualsHex sig e) sigs = Inr (\<exists>sig \<in> set sigs. sig = e)"
  by (induction sigs) (auto simp: safeEqualsHex_eq split: bool.splits)

lemma verifyStripeSignature_eq:
  "verifyStripeSignature h payload hdr k =
     Inr (headerTimestamp hdr \<noteq> [] \<and>
          (\<exists>sig \<in> set (headerSignatures hdr). sig = h k (headerTimestamp hdr @ ''.'' @ payload)))"
  by (auto simp: verifyStripeSignature_def Let_def someE_safeEqualsHex)

lemma split_on_not_Nil: "split_on sep s \<noteq> []"
  by (induction s) (auto split: list.splits)










text \<open>
  Claim C10. \<open>verifyStripeSignature\<close> returns a boolean for every payload, header and secret:
  it never throws. \<open>safeEqualsHex\<close> never throws either: two values whose UTF-8 encodings
  differ in length are rejected by the length check, and \<open>timingSafeEqual\<close>, which throws on
  buffers of different length, is reached only with buffers of equal length.
\<close>

theorem verifyStripeSignature_total:
  "(\<exists>r. verifyStripeSignature h payload hdr k = Inr r)
   \<and> (\<exists>r. safeEqualsHex a b = Inr r)
   \<and> (length (utf8 a) \<noteq> length (utf8 b) \<longrightarrow>
        safeEqualsHex a b = Inr False
        \<and> timingSafeEqual (utf8 a) (utf8 b) = Inl ERR_CRYPTO_TIMING_SAFE_EQUAL_LENGTH)
   \<and> (length (utf8 a) = length (utf8 b) \<longrightarrow>
        safeEqualsHex a b = timingSafeEqual (utf8 a) (utf8 b))"
proof (intro conjI impI)
  show "\<exists>r. verifyStripeSignature h payload hdr k = Inr r"
    by (simp add: verifyStripeSignature_eq)
  show "\<exists>r. safeEqualsHex a b = Inr r"
    by (simp add: safeEqualsHex_eq)
  show "safeEqualsHex a b = Inr False" if "length (utf8 a) \<noteq> length (utf8 b)"
    using that by (simp add: safeEqualsHex_def Let_def)
  show "timingSafeEqual (utf8 a) (utf8 b) = Inl ERR_CRYPTO_TIMING_SAFE_EQUAL_LENGTH"
    if "length (utf8 a) \<noteq> length (utf8 b)"
    using that by (simp add: timingSafeEqual_def)
  show "safeEqualsHex a b = timingSafeEqual (utf8 a) (utf8 b)"
    if "length (utf8 a) = length (utf8 b)"
    using that by (simp add: safeEqualsHex_def Let_def)
qed

theorem verifyStripeSignature_total_witness:
  "length (utf8 ''0a1'') \<noteq> length (utf8 ''0a'')
   \<and> safeEqualsHex ''0a1'' ''0a'' = Inr False
   \<and> length (utf8 ''0b'') = length (utf8 ''0a'')
   \<and> safeEqualsHex ''0b'' ''0a'' = timingSafeEqual (utf8 ''0b'') (utf8 ''0a'')
   \<and> (\<exists>r. verifyStripeSignature (\<lambda>k m. ''0a'') ''{}'' ''t=17,v1=0a1'' ''s'' = Inr r)"
  using verifyStripeSignature_total [of "\<lambda>k m. ''0a''" "''{}''" "''t=17,v1=0a1''" "''s''" "''0a1''" "''0a''"]
    verifyStripeSignature_total [of "\<lambda>k m. ''0a''" "''{}''" "''t=17,v1=0a1''" "''s''" "''0b''" "''0a''"]
  by (simp add: utf8_def utf8_char_def)

section \<open>Properties of the payment reconciler\<close>

lemma creditInstallment_snd:
  "snd (creditInstallment m pre e n a d t inst) =
     (installmentNumber inst = n \<and> \<not> (e \<noteq> [] \<and> list_ex (\<lambda>p. id_pay p = e) (payments inst)))"
  by (simp add: creditInstallment_def Let_def)

lemma creditInstallment_unchanged:
  "\<not> snd (creditInstallment m pre e n a d t inst) \<Longrightarrow>
   fst (creditInstallment m pre e n a d t inst) = inst"
  by (auto simp: creditInstallment_def Let_def split: if_splits)


lemma creditInstallment_changed:
  "snd (creditInstallment m pre e n a d t inst) \<Longrightarrow>
   fst (creditInstallment m pre e n a d t inst) =
     inst\<lparr> paidAmount := fadd (paidAmount inst) a,
           status := (if double (amount inst) \<le> fadd (fadd (paidAmount inst) a) (1 / 100)
                      then Pago else Pendente),
           paymentDate :=
             (if double (amount inst) \<le> fadd (fadd (paidAmount inst) a) (1 / 100)
              then (case paymentDate inst of
                      Str s \<Rightarrow> (if s = [] then Str d else Str s)
                    | _ \<Rightarrow> Str d)
              else (case paymentDate inst of Absent \<Rightarrow> Undefined | v \<Rightarrow> v)),
           payments := payments inst @
             [\<lparr> id_pay = (if e \<noteq> [] then e else pre @ show_nat t), amount_pay = a,
                date_pay = d, method_pay = m, receivedBy = ''Sistema'' \<rparr>] \<rparr>"
  by (auto simp: creditInstallment_def Let_def split: if_splits)

lemma creditInstallment_again:
  assumes "e \<noteq> []"
  shows "\<not> snd (creditInstallment m pre e n a' d' t'
                 (fst (creditInstallment m pre e n a d t inst)))"
proof (cases "snd (creditInstallment m pre e n a d t inst)")
  case True
  with assms show ?thesis
    by (simp add: creditInstallment_snd creditInstallment_changed list_ex_iff)
next
  case False
  then show ?thesis
    by (simp add: creditInstallment_unchanged) (simp add: creditInstallment_snd)
qed

lemma creditInstallment_undefined_indep:
  "(paymentDate (fst (creditInstallment m pre e n a d t inst)) = Undefined) =
   (paymentDate (fst (creditInstallment m pre e n a d' t' inst)) = Undefined)"
  by (auto simp: creditInstallment_def Let_def split: field.splits)

lemma hasUndefined_indep:
  "hasUndefined (map (\<lambda>i. fst (creditInstallment m pre e n a d t i)) ds) =
   hasUndefined (map (\<lambda>i. fst (creditInstallment m pre e n a d' t' i)) ds)"
  unfolding hasUndefined_def list_ex_iff
  using creditInstallment_undefined_indep [of m pre e n a d t _ d' t'] by auto

lemma creditOrder_no_update:
  assumes "\<forall>inst \<in> set (case db oid of None \<Rightarrow> []
                          | Some ord \<Rightarrow> (case installmentDetails ord of None \<Rightarrow> [] | Some ds \<Rightarrow> ds)).
             \<not> snd (creditInstallment m pre e n a d t inst)"
  shows "creditOrder m pre db oid e n a d t = Inr db"
  using assms by (simp add: creditOrder_def Let_def list_ex_iff)

lemma creditOrder_update:
  assumes "db oid = Some ord" and "installmentDetails ord = Some ds"
    and "\<exists>inst \<in> set ds. snd (creditInstallment m pre e n a d t inst)"
  shows "creditOrder m pre db oid e n a d t =
     (if hasUndefined (map (\<lambda>i. fst (creditInstallment m pre e n a d t i)) ds)
      then Inl FirestoreInvalidData
      else Inr (db(oid \<mapsto> ord\<lparr> installmentDetails :=
                       Some (map (\<lambda>i. fst (creditInstallment m pre e n a d t i)) ds),
                     paymentStatus :=
                       (if list_all (\<lambda>i. status i = Pago)
                             (map (\<lambda>i. fst (creditInstallment m pre e n a d t i)) ds)
                        then Some Pago else paymentStatus ord) \<rparr>)))"
proof -
  from assms(3) have "ds \<noteq> []" by auto
  with assms show ?thesis
    by (simp add: creditOrder_def Let_def list_ex_iff updateDoc_def applyPatch_def comp_def)
qed

lemma creditOrder_cases:
  obtains (same) "creditOrder m pre db oid e n a d t = Inr db"
    "\<forall>inst \<in> set (case db oid of None \<Rightarrow> []
                          | Some ord \<Rightarrow> (case installmentDetails ord of None \<Rightarrow> [] | Some ds \<Rightarrow> ds)).
             \<not> snd (creditInstallment m pre e n a d t inst)"
  | (credited) ord ds where "db oid = Some ord" and "installmentDetails ord = Some ds"
      and "\<exists>inst \<in> set ds. snd (creditInstallment m pre e n a d t inst)"
proof (cases "\<forall>inst \<in> set (case db oid of None \<Rightarrow> []
                          | Some ord \<Rightarrow> (case installmentDetails ord of None \<Rightarrow> [] | Some ds \<Rightarrow> ds)).
             \<not> snd (creditInstallment m pre e n a d t inst)")
  case True
  then show ?thesis using same creditOrder_no_update [where db = db and oid = oid, OF True] by blast
next
  case False
  then obtain inst where i: "inst \<in> set (case db oid of None \<Rightarrow> []
                          | Some ord \<Rightarrow> (case installmentDetails ord of None \<Rightarrow> [] | Some ds \<Rightarrow> ds))"
    and s: "snd (creditInstallment m pre e n a d t inst)"
    by blast
  from i obtain ord where o: "db oid = Some ord" by (cases "db oid") auto
  with i obtain ds where ds: "installmentDetails ord = Some ds"
    by (cases "installmentDetails ord") auto
  from i o ds have "inst \<in> set ds" by simp
  with s o ds show ?thesis using credited [of ord ds] by blast
qed

lemma creditOrder_idempotent:
  assumes "e \<noteq> []"
  shows "storeAfter (storeAfter db (creditOrder m pre db oid e n a d t))
           (creditOrder m pre (storeAfter db (creditOrder m pre db oid e n a d t)) oid e n a d' t')
         = storeAfter db (creditOrder m pre db oid e n a d t)"
proof (cases rule: creditOrder_cases [of m pre db oid e n a d t])
  case same
  from same(2) have "\<forall>inst \<in> set (case db oid of None \<Rightarrow> []
                          | Some ord \<Rightarrow> (case installmentDetails ord of None \<Rightarrow> [] | Some ds \<Rightarrow> ds)).
             \<not> snd (creditInstallment m pre e n a d' t' inst)"
    by (simp add: creditInstallment_snd)
  then have "creditOrder m pre db oid e n a d' t' = Inr db"
    by (rule creditOrder_no_update [where db = db and oid = oid])
  with same(1) show ?thesis by (simp add: storeAfter_def)
next
  case (credited ord ds)
  note upd = creditOrder_update [where db = db and oid = oid, OF credited]
  from credited(3) have c': "\<exists>inst \<in> set ds. snd (creditInstallment m pre e n a d' t' inst)"
    by (simp add: creditInstallment_snd)
  note upd' = creditOrder_update [where db = db and oid = oid, OF credited(1,2) c']
  show ?thesis
  proof (cases "hasUndefined (map (\<lambda>i. fst (creditInstallment m pre e n a d t i)) ds)")
    case True
    then have "hasUndefined (map (\<lambda>i. fst (creditInstallment m pre e n a d' t' i)) ds)"
      by (simp add: hasUndefined_indep [of m pre e n a d' t' ds d t])
    with True show ?thesis by (simp add: upd upd' storeAfter_def)
  next
    case False
    let ?db1 = "db(oid \<mapsto> ord\<lparr> installmentDetails :=
                       Some (map (\<lambda>i. fst (creditInstallment m pre e n a d t i)) ds),
                     paymentStatus :=
                       (if list_all (\<lambda>i. status i = Pago)
                             (map (\<lambda>i. fst (creditInstallment m pre e n a d t i)) ds)
                        then Some Pago else paymentStatus ord) \<rparr>)"
    from False have s1: "storeAfter db (creditOrder m pre db oid e n a d t) = ?db1"
      by (simp add: upd storeAfter_def)
    have "creditOrder m pre ?db1 oid e n a d' t' = Inr ?db1"
      by (rule creditOrder_no_update [where oid = oid])
        (use assms in \<open>simp add: creditInstallment_again\<close>)
    then show ?thesis unfolding s1 by (simp add: storeAfter_def)
  qed
qed

lemma show_nat_scenario: "show_nat 1767225600000 = ''1767225600000''"
  by (simp add: show_nat.simps)

lemma stripeReconcile_credit:
  assumes "stripe_shouldUpdate ev" and "stripe_orderId ev \<noteq> []"
    and "session_installmentNumber ev = Some n" and "0 < n"
    and "stripe_nextPaymentStatus ev = Pago"
  shows "stripeReconcile isoS clk db ev =
     creditOrder ''Stripe'' ''stripe-'' db (stripe_orderId ev) (stripe_sessionId ev) n
       (max 0 (fdiv (amount_total ev) 100))
       (case created ev of Some c \<Rightarrow> isoS c | None \<Rightarrow> now_iso clk) (now_ms clk)"
  using assms by (simp add: stripeReconcile_def Let_def isInstallmentPayment_def)

lemma stripeReconcile_skip:
  assumes "\<not> (stripe_shouldUpdate ev \<and> stripe_orderId ev \<noteq> [])"
  shows "stripeReconcile isoS clk db ev = Inr db"
  using assms by (auto simp: stripeReconcile_def Let_def)

lemma mpReconcile_credit:
  assumes "external_reference p = Some oid" and "oid \<noteq> []"
    and "mp_installmentNumber p = Some n" and "0 < n"
    and "paymentStatusFromMercadoPago (orElse (mp_status p) []) = Pago"
  shows "mpReconcile clk db (Some p) =
     creditOrder ''MercadoPago'' ''mercadopago-'' db oid (trim (orElse (mp_id p) [])) n
       (max 0 (case transaction_amount p of None \<Rightarrow> 0 | Some a \<Rightarrow> double a))
       (case date_approved p of
          Some d \<Rightarrow> d
        | None \<Rightarrow> (case date_created p of Some d \<Rightarrow> d | None \<Rightarrow> now_iso clk))
       (now_ms clk)"
  using assms by (simp add: mpReconcile_def Let_def isInstallmentPayment_def)

lemma mpReconcile_skip:
  assumes "orElse (external_reference p) [] = []"
  shows "mpReconcile clk db (Some p) = Inr db"
  using assms by (auto simp: mpReconcile_def Let_def orElse_def split: option.splits if_splits)

lemma isInstallmentPayment_Some: "isInstallmentPayment v \<Longrightarrow> \<exists>n. v = Some n \<and> 0 < n"
  by (cases v) (simp_all add: isInstallmentPayment_def)

lemma stripeReconcile_idempotent:
  assumes "stripe_sessionId ev \<noteq> []"
    and "isInstallmentPayment (session_installmentNumber ev)"
    and "stripe_nextPaymentStatus ev = Pago"
  shows "storeAfter (storeAfter db (stripeReconcile isoS clk db ev))
           (stripeReconcile isoS clk' (storeAfter db (stripeReconcile isoS clk db ev)) ev)
         = storeAfter db (stripeReconcile isoS clk db ev)"
proof (cases "stripe_shouldUpdate ev \<and> stripe_orderId ev \<noteq> []")
  case False
  then show ?thesis by (simp add: stripeReconcile_skip storeAfter_def)
next
  case True
  from assms(2) obtain n where n: "session_installmentNumber ev = Some n" "0 < n"
    by (auto dest: isInstallmentPayment_Some)
  from True n assms(3) show ?thesis
    by (simp add: stripeReconcile_credit creditOrder_idempotent [OF assms(1)])
qed

lemma mpReconcile_idempotent:
  assumes "trim (orElse (mp_id p) []) \<noteq> []"
    and "isInstallmentPayment (mp_installmentNumber p)"
    and "paymentStatusFromMercadoPago (orElse (mp_status p) []) = Pago"
  shows "storeAfter (storeAfter db (mpReconcile clk db (Some p)))
           (mpReconcile clk' (storeAfter db (mpReconcile clk db (Some p))) (Some p))
         = storeAfter db (mpReconcile clk db (Some p))"
proof (cases "orElse (external_reference p) [] = []")
  case True
  then show ?thesis by (simp add: mpReconcile_skip storeAfter_def)
next
  case False
  then obtain oid where oid: "external_reference p = Some oid" "oid \<noteq> []"
    by (auto simp: orElse_def split: option.splits if_splits)
  from assms(2) obtain n where n: "mp_installmentNumber p = Some n" "0 < n"
    by (auto dest: isInstallmentPayment_Some)
  from oid n assms(3) show ?thesis
    by (simp add: mpReconcile_credit creditOrder_idempotent [OF assms(1)])
qed

lemma creditOrder_duplicate_noop:
  assumes "e \<noteq> []" and "db oid = Some ord" and "installmentDetails ord = Some ds"
    and "\<forall>inst \<in> set ds. installmentNumber inst = n \<longrightarrow> (\<exists>q \<in> set (payments inst). id_pay q = e)"
  shows "creditOrder m pre db oid e n a d t = Inr db"
  by (rule creditOrder_no_update [where oid = oid])
     (use assms in \<open>auto simp: creditInstallment_snd list_ex_iff\<close>)

text \<open>
  Claim C1, as amended. For an event that targets an installment with a status that
  resolves to \<open>Pago\<close> and carries a non-empty external payment identifier (the session id
  of Stripe, the trimmed payment id of Mercado Pago), applying the event a second time,
  at any later time, leaves the store that the first application left; and when the
  identifier is already among the recorded payments of every installment with the targeted
  number, the application writes nothing and leaves the store as it is.
\<close>

theorem webhook_credit_idempotent:
  "(stripe_sessionId ev \<noteq> [] \<and> isInstallmentPayment (session_installmentNumber ev)
      \<and> stripe_nextPaymentStatus ev = Pago
    \<longrightarrow> storeAfter (storeAfter db (stripeReconcile isoS clk db ev))
            (stripeReconcile isoS clk' (storeAfter db (stripeReconcile isoS clk db ev)) ev)
          = storeAfter db (stripeReconcile isoS clk db ev))
   \<and> (trim (orElse (mp_id p) []) \<noteq> [] \<and> isInstallmentPayment (mp_installmentNumber p)
      \<and> paymentStatusFromMercadoPago (orElse (mp_status p) []) = Pago
    \<longrightarrow> storeAfter (storeAfter db (mpReconcile clk db (Some p)))
            (mpReconcile clk' (storeAfter db (mpReconcile clk db (Some p))) (Some p))
          = storeAfter db (mpReconcile clk db (Some p)))
   \<and> (e \<noteq> [] \<and> db oid = Some ord \<and> installmentDetails ord = Some ds
      \<and> (\<forall>inst \<in> set ds. installmentNumber inst = n
            \<longrightarrow> (\<exists>q \<in> set (payments inst). id_pay q = e))
    \<longrightarrow> creditOrder m pre db oid e n a d t = Inr db)"
proof (intro conjI impI)
  assume "stripe_sessionId ev \<noteq> [] \<and> isInstallmentPayment (session_installmentNumber ev)
      \<and> stripe_nextPaymentStatus ev = Pago"
  then show "storeAfter (storeAfter db (stripeReconcile isoS clk db ev))
            (stripeReconcile isoS clk' (storeAfter db (stripeReconcile isoS clk db ev)) ev)
          = storeAfter db (stripeReconcile isoS clk db ev)"
    by (intro stripeReconcile_idempotent) simp_all
next
  assume "trim (orElse (mp_id p) []) \<noteq> [] \<and> isInstallmentPayment (mp_installmentNumber p)
      \<and> paymentStatusFromMercadoPago (orElse (mp_status p) []) = Pago"
  then show "storeAfter (storeAfter db (mpReconcile clk db (Some p)))
            (mpReconcile clk' (storeAfter db (mpReconcile clk db (Some p))) (Some p))
          = storeAfter db (mpReconcile clk db (Some p))"
    by (intro mpReconcile_idempotent) simp_all
next
  assume "e \<noteq> [] \<and> db oid = Some ord \<and> installmentDetails ord = Some ds
      \<and> (\<forall>inst \<in> set ds. installmentNumber inst = n
            \<longrightarrow> (\<exists>q \<in> set (payments inst). id_pay q = e))"
  then show "creditOrder m pre db oid e n a d t = Inr db"
    by (intro creditOrder_duplicate_noop [where oid = oid and ord = ord and ds = ds]) simp_all
qed

lemmas scenario_defs =
  scenarioStripeEvent_def scenarioMpPayment_def scenarioClock_def scenarioStore_def
  scenarioOrder_def scenarioInstallment_def scenarioPayment_def scenarioPaidStore_def
  scenarioIsoOfSeconds_def scenarioSettledStore_def scenarioFetchNotFound_def
  scenarioNotification_def

lemmas handler_defs =
  stripeReconcile_def stripe_sessionId_def stripe_orderId_def stripe_shouldUpdate_def
  stripe_nextPaymentStatus_def paymentStatusFromStripe_def isInstallmentPayment_def
  mpReconcile_def paymentStatusFromMercadoPago_def
  creditOrder_def creditInstallment_def updateDoc_def applyPatch_def orElse_def Let_def
  storeAfter_def hasUndefined_def

lemmas number_defs = fadd_def fsub_def fmul_def fdiv_def double_eval

lemma trim_777: "trim ''777'' = ''777''"
  by (simp add: trim_def isWhiteSpace_def)


lemma scenario_stripe_first:
  "stripeReconcile scenarioIsoOfSeconds scenarioClock (scenarioPaidStore ''777'')
     (scenarioStripeEvent (Some ''cs_1''))
   = Inr [''order-1'' \<mapsto>
        scenarioOrder\<lparr> paymentStatus := Some Pago,
          installmentDetails :=
            Some [scenarioInstallment\<lparr> paidAmount := 50, status := Pago,
                    paymentDate := Str ''2026-01-01T00:00:00.000Z'',
                    payments := [scenarioPayment ''777'' 25,
                                 \<lparr> id_pay = ''cs_1'', amount_pay = 25,
                                    date_pay = ''2026-01-01T00:00:00.000Z'',
                                    method_pay = ''Stripe'', receivedBy = ''Sistema'' \<rparr>] \<rparr>] \<rparr>]"
  by (simp add: scenario_defs handler_defs number_defs)

theorem webhook_credit_idempotent_witness:
  "stripe_sessionId (scenarioStripeEvent (Some ''cs_1'')) \<noteq> []
   \<and> stripe_nextPaymentStatus (scenarioStripeEvent (Some ''cs_1'')) = Pago
   \<and> storeAfter (scenarioPaidStore ''777'')
        (stripeReconcile scenarioIsoOfSeconds scenarioClock (scenarioPaidStore ''777'')
           (scenarioStripeEvent (Some ''cs_1'')))
      \<noteq> scenarioPaidStore ''777''
   \<and> storeAfter
        (storeAfter (scenarioPaidStore ''777'')
           (stripeReconcile scenarioIsoOfSeconds scenarioClock (scenarioPaidStore ''777'')
              (scenarioStripeEvent (Some ''cs_1''))))
        (stripeReconcile scenarioIsoOfSeconds scenarioClock
           (storeAfter (scenarioPaidStore ''777'')
              (stripeReconcile scenarioIsoOfSeconds scenarioClock (scenarioPaidStore ''777'')
                 (scenarioStripeEvent (Some ''cs_1''))))
           (scenarioStripeEvent (Some ''cs_1'')))
      = storeAfter (scenarioPaidStore ''777'')
          (stripeReconcile scenarioIsoOfSeconds scenarioClock (scenarioPaidStore ''777'')
             (scenarioStripeEvent (Some ''cs_1'')))
   \<and> trim (orElse (mp_id (scenarioMpPayment (Some ''777''))) []) \<noteq> []
   \<and> storeAfter
        (storeAfter (scenarioPaidStore ''777'')
           (mpReconcile scenarioClock (scenarioPaidStore ''777'')
              (Some (scenarioMpPayment (Some ''777'')))))
        (mpReconcile scenarioClock
           (storeAfter (scenarioPaidStore ''777'')
              (mpReconcile scenarioClock (scenarioPaidStore ''777'')
                 (Some (scenarioMpPayment (Some ''777'')))))
           (Some (scenarioMpPayment (Some ''777''))))
      = storeAfter (scenarioPaidStore ''777'')
          (mpReconcile scenarioClock (scenarioPaidStore ''777'')
             (Some (scenarioMpPayment (Some ''777''))))
   \<and> creditOrder ''MercadoPago'' ''mercadopago-'' (scenarioPaidStore ''777'') ''order-1'' ''777'' 1 25
        ''2026-01-01T00:00:00.000Z'' 1767225600000 = Inr (scenarioPaidStore ''777'')"
proof -
  let ?ev = "scenarioStripeEvent (Some ''cs_1'')"
  let ?p = "scenarioMpPayment (Some ''777'')"
  let ?inst = "scenarioInstallment\<lparr> paidAmount := 25, payments := [scenarioPayment ''777'' 25] \<rparr>"
  let ?ord = "scenarioOrder\<lparr> installmentDetails := Some [?inst] \<rparr>"
  have h1: "stripe_sessionId ?ev \<noteq> [] \<and> isInstallmentPayment (session_installmentNumber ?ev)
      \<and> stripe_nextPaymentStatus ?ev = Pago"
    by (simp add: scenario_defs handler_defs)
  have h2: "trim (orElse (mp_id ?p) []) \<noteq> [] \<and> isInstallmentPayment (mp_installmentNumber ?p)
      \<and> paymentStatusFromMercadoPago (orElse (mp_status ?p) []) = Pago"
    by (simp add: scenario_defs handler_defs trim_777)
  have h3: "''777'' \<noteq> [] \<and> scenarioPaidStore ''777'' ''order-1'' = Some ?ord
      \<and> installmentDetails ?ord = Some [?inst]
      \<and> (\<forall>inst \<in> set [?inst]. installmentNumber inst = 1
            \<longrightarrow> (\<exists>q \<in> set (payments inst). id_pay q = ''777''))"
    by (simp add: scenario_defs)
  have "storeAfter (scenarioPaidStore ''777'')
          (stripeReconcile scenarioIsoOfSeconds scenarioClock (scenarioPaidStore ''777'') ?ev)
          ''order-1'' \<noteq> scenarioPaidStore ''777'' ''order-1''"
    unfolding scenario_stripe_first by (simp add: storeAfter_def scenario_defs)
  then have h4: "storeAfter (scenarioPaidStore ''777'')
          (stripeReconcile scenarioIsoOfSeconds scenarioClock (scenarioPaidStore ''777'') ?ev)
          \<noteq> scenarioPaidStore ''777''"
    by metis
  from webhook_credit_idempotent
      [where ev = ?ev and isoS = scenarioIsoOfSeconds and clk = scenarioClock
          and clk' = scenarioClock and db = "scenarioPaidStore ''777''" and p = ?p
          and e = "''777''" and oid = "''order-1''" and ord = ?ord and ds = "[?inst]"
          and n = 1 and m = "''MercadoPago''" and pre = "''mercadopago-''" and a = 25
          and d = "''2026-01-01T00:00:00.000Z''" and t = 1767225600000]
    h1 h2 h3 h4
  show ?thesis by blast
qed

text \<open>
  Counterexample to claim C1 as stated: a Stripe event of 25.00 for installment 1, paid,
  whose session identifier is missing, delivered to an order whose installment of 50.00 has
  25.00 paid. The first delivery settles the installment and is written: 50.00 paid. The
  second delivery is credited again and written: 75.00 paid. The store after two
  deliveries differs from the store after one.
\<close>

theorem empty_session_id_settling_payment_not_idempotent:
  "stripe_sessionId (scenarioStripeEvent None) = []
   \<and> isInstallmentPayment (session_installmentNumber (scenarioStripeEvent None))
   \<and> stripe_nextPaymentStatus (scenarioStripeEvent None) = Pago
   \<and> map_option (map_option (map paidAmount) \<circ> installmentDetails)
        (storeAfter (scenarioPaidStore ''p1'')
           (stripeReconcile scenarioIsoOfSeconds scenarioClock (scenarioPaidStore ''p1'')
              (scenarioStripeEvent None)) ''order-1'')
      = Some (Some [50])
   \<and> map_option (map_option (map paidAmount) \<circ> installmentDetails)
        (storeAfter
           (storeAfter (scenarioPaidStore ''p1'')
              (stripeReconcile scenarioIsoOfSeconds scenarioClock (scenarioPaidStore ''p1'')
                 (scenarioStripeEvent None)))
           (stripeReconcile scenarioIsoOfSeconds scenarioClock
              (storeAfter (scenarioPaidStore ''p1'')
                 (stripeReconcile scenarioIsoOfSeconds scenarioClock (scenarioPaidStore ''p1'')
                    (scenarioStripeEvent None)))
              (scenarioStripeEvent None)) ''order-1'')
      = Some (Some [75])
   \<and> storeAfter
        (storeAfter (scenarioPaidStore ''p1'')
           (stripeReconcile scenarioIsoOfSeconds scenarioClock (scenarioPaidStore ''p1'')
              (scenarioStripeEvent None)))
        (stripeReconcile scenarioIsoOfSeconds scenarioClock
           (storeAfter (scenarioPaidStore ''p1'')
              (stripeReconcile scenarioIsoOfSeconds scenarioClock (scenarioPaidStore ''p1'')
                 (scenarioStripeEvent None)))
           (scenarioStripeEvent None))
      \<noteq> storeAfter (scenarioPaidStore ''p1'')
          (stripeReconcile scenarioIsoOfSeconds scenarioClock (scenarioPaidStore ''p1'')
             (scenarioStripeEvent None))"
proof -
  let ?ev = "scenarioStripeEvent None"
  let ?once = "storeAfter (scenarioPaidStore ''p1'')
     (stripeReconcile scenarioIsoOfSeconds scenarioClock (scenarioPaidStore ''p1'') ?ev)"
  let ?twice = "storeAfter ?once (stripeReconcile scenarioIsoOfSeconds scenarioClock ?once ?ev)"
  have h: "stripe_sessionId ?ev = [] \<and> isInstallmentPayment (session_installmentNumber ?ev)
      \<and> stripe_nextPaymentStatus ?ev = Pago"
    by (simp add: scenario_defs handler_defs)
  have o: "map_option (map_option (map paidAmount) \<circ> installmentDetails) (?once ''order-1'')
             = Some (Some [50])"
    by (simp add: scenario_defs handler_defs number_defs show_nat_scenario)
  have t: "map_option (map_option (map paidAmount) \<circ> installmentDetails) (?twice ''order-1'')
             = Some (Some [75])"
    by (simp add: scenario_defs handler_defs number_defs show_nat_scenario)
  from o t have "?twice ''order-1'' \<noteq> ?once ''order-1''" by auto
  then have "?twice \<noteq> ?once" by auto
  with h o t show ?thesis by blast
qed





lemma creditOrder_completion:
  assumes "storeAfter db (creditOrder m pre db oid e n a d t) \<noteq> db"
    and "storeAfter db (creditOrder m pre db oid e n a d t) oid = Some ord'"
    and "installmentDetails ord' = Some ds"
    and "list_all (\<lambda>i. status i = Pago) ds"
  shows "paymentStatus ord' = Some Pago"
proof (cases rule: creditOrder_cases [of m pre db oid e n a d t])
  case same
  with assms(1) show ?thesis by (simp add: storeAfter_def)
next
  case (credited ord ds0)
  note upd = creditOrder_update [where db = db and oid = oid, OF credited]
  from assms(1) have nu: "\<not> hasUndefined (map (\<lambda>i. fst (creditInstallment m pre e n a d t i)) ds0)"
    by (auto simp: upd storeAfter_def)
  from assms(2) nu have o: "ord' = ord\<lparr> installmentDetails :=
                       Some (map (\<lambda>i. fst (creditInstallment m pre e n a d t i)) ds0),
                     paymentStatus :=
                       (if list_all (\<lambda>i. status i = Pago)
                             (map (\<lambda>i. fst (creditInstallment m pre e n a d t i)) ds0)
                        then Some Pago else paymentStatus ord) \<rparr>"
    by (simp add: upd storeAfter_def)
  with assms(3) have "ds = map (\<lambda>i. fst (creditInstallment m pre e n a d t i)) ds0"
    by simp
  with assms(4) o show ?thesis by simp
qed

text \<open>
  Claim C2, as amended. After a webhook reconciliation of an installment-targeted event with
  status \<open>Pago\<close> that has changed the store (a payment was credited), if every installment of
  the order now has status \<open>Pago\<close>, the order's \<open>paymentStatus\<close> is \<open>Pago\<close>; for the Stripe
  handler and for the Mercado Pago handler.
\<close>

theorem webhook_completion_sets_paymentStatus:
  "(isInstallmentPayment (session_installmentNumber ev) \<and> stripe_nextPaymentStatus ev = Pago
      \<and> storeAfter db (stripeReconcile isoS clk db ev) \<noteq> db
      \<and> storeAfter db (stripeReconcile isoS clk db ev) (stripe_orderId ev) = Some ord'
      \<and> installmentDetails ord' = Some ds \<and> ds \<noteq> [] \<and> list_all (\<lambda>i. status i = Pago) ds
    \<longrightarrow> paymentStatus ord' = Some Pago)
   \<and> (isInstallmentPayment (mp_installmentNumber p)
      \<and> paymentStatusFromMercadoPago (orElse (mp_status p) []) = Pago
      \<and> external_reference p = Some oid
      \<and> storeAfter db (mpReconcile clk db (Some p)) \<noteq> db
      \<and> storeAfter db (mpReconcile clk db (Some p)) oid = Some ord'
      \<and> installmentDetails ord' = Some ds \<and> ds \<noteq> [] \<and> list_all (\<lambda>i. status i = Pago) ds
    \<longrightarrow> paymentStatus ord' = Some Pago)"
proof (intro conjI impI)
  assume h: "isInstallmentPayment (session_installmentNumber ev) \<and> stripe_nextPaymentStatus ev = Pago
      \<and> storeAfter db (stripeReconcile isoS clk db ev) \<noteq> db
      \<and> storeAfter db (stripeReconcile isoS clk db ev) (stripe_orderId ev) = Some ord'
      \<and> installmentDetails ord' = Some ds \<and> ds \<noteq> [] \<and> list_all (\<lambda>i. status i = Pago) ds"
  then obtain n where n: "session_installmentNumber ev = Some n" "0 < n"
    by (auto dest: isInstallmentPayment_Some)
  have "\<not> (stripe_shouldUpdate ev \<and> stripe_orderId ev \<noteq> []) \<Longrightarrow>
      storeAfter db (stripeReconcile isoS clk db ev) = db"
    by (simp add: stripeReconcile_skip storeAfter_def)
  with h have u: "stripe_shouldUpdate ev \<and> stripe_orderId ev \<noteq> []" by blast
  with n h have r: "stripeReconcile isoS clk db ev =
     creditOrder ''Stripe'' ''stripe-'' db (stripe_orderId ev) (stripe_sessionId ev) n
       (max 0 (fdiv (amount_total ev) 100))
       (case created ev of Some c \<Rightarrow> isoS c | None \<Rightarrow> now_iso clk) (now_ms clk)"
    by (intro stripeReconcile_credit) simp_all
  from h show "paymentStatus ord' = Some Pago"
    unfolding r by (intro creditOrder_completion [where ord' = ord' and ds = ds and db = db]) blast+
next
  assume h: "isInstallmentPayment (mp_installmentNumber p)
      \<and> paymentStatusFromMercadoPago (orElse (mp_status p) []) = Pago
      \<and> external_reference p = Some oid
      \<and> storeAfter db (mpReconcile clk db (Some p)) \<noteq> db
      \<and> storeAfter db (mpReconcile clk db (Some p)) oid = Some ord'
      \<and> installmentDetails ord' = Some ds \<and> ds \<noteq> [] \<and> list_all (\<lambda>i. status i = Pago) ds"
  then obtain n where n: "mp_installmentNumber p = Some n" "0 < n"
    by (auto dest: isInstallmentPayment_Some)
  have "orElse (external_reference p) [] = [] \<Longrightarrow> storeAfter db (mpReconcile clk db (Some p)) = db"
    by (simp add: mpReconcile_skip storeAfter_def)
  with h have "orElse (external_reference p) [] \<noteq> []" by blast
  with h have u: "oid \<noteq> []" by (auto simp: orElse_def)
  with n h have r: "mpReconcile clk db (Some p) =
     creditOrder ''MercadoPago'' ''mercadopago-'' db oid (trim (orElse (mp_id p) [])) n
       (max 0 (case transaction_amount p of None \<Rightarrow> 0 | Some a \<Rightarrow> double a))
       (case date_approved p of
          Some d \<Rightarrow> d
        | None \<Rightarrow> (case date_created p of Some d \<Rightarrow> d | None \<Rightarrow> now_iso clk))
       (now_ms clk)"
    by (intro mpReconcile_credit) simp_all
  from h show "paymentStatus ord' = Some Pago"
    unfolding r by (intro creditOrder_completion [where ord' = ord' and ds = ds and db = db]) blast+
qed

lemma scenario_stripe_completes:
  "storeAfter (scenarioPaidStore ''777'')
     (stripeReconcile scenarioIsoOfSeconds scenarioClock (scenarioPaidStore ''777'')
        (scenarioStripeEvent (Some ''cs_1''))) ''order-1'' =
   Some \<lparr> paymentStatus = Some Pago, paymentProvider = None, paymentSessionId = None,
          installmentDetails = Some
            [scenarioInstallment
               \<lparr> paidAmount := 50, status := Pago,
                 paymentDate := Str ''2026-01-01T00:00:00.000Z'',
                 payments :=
                   [scenarioPayment ''777'' 25,
                    \<lparr> id_pay = ''cs_1'', amount_pay = 25, date_pay = ''2026-01-01T00:00:00.000Z'',
                      method_pay = ''Stripe'', receivedBy = ''Sistema'' \<rparr>] \<rparr>] \<rparr>"
  by (simp add: scenario_defs handler_defs number_defs)

lemma scenario_mp_completes:
  "storeAfter (scenarioPaidStore ''777'')
     (mpReconcile scenarioClock (scenarioPaidStore ''777'') (Some (scenarioMpPayment (Some ''888''))))
     ''order-1'' =
   Some \<lparr> paymentStatus = Some Pago, paymentProvider = None, paymentSessionId = None,
          installmentDetails = Some
            [scenarioInstallment
               \<lparr> paidAmount := 50, status := Pago,
                 paymentDate := Str ''2026-01-01T00:00:00.000Z'',
                 payments :=
                   [scenarioPayment ''777'' 25,
                    \<lparr> id_pay = ''888'', amount_pay = 25, date_pay = ''2026-01-01T00:00:00.000Z'',
                      method_pay = ''MercadoPago'', receivedBy = ''Sistema'' \<rparr>] \<rparr>] \<rparr>"
  by (simp add: scenario_defs handler_defs number_defs trim_def isWhiteSpace_def)

theorem webhook_completion_sets_paymentStatus_witness:
  "storeAfter (scenarioPaidStore ''777'')
       (stripeReconcile scenarioIsoOfSeconds scenarioClock (scenarioPaidStore ''777'')
          (scenarioStripeEvent (Some ''cs_1''))) \<noteq> scenarioPaidStore ''777''
   \<and> paymentStatus (the (storeAfter (scenarioPaidStore ''777'')
                          (stripeReconcile scenarioIsoOfSeconds scenarioClock (scenarioPaidStore ''777'')
                             (scenarioStripeEvent (Some ''cs_1'')))
                          (stripe_orderId (scenarioStripeEvent (Some ''cs_1''))))) = Some Pago
   \<and> storeAfter (scenarioPaidStore ''777'')
       (mpReconcile scenarioClock (scenarioPaidStore ''777'') (Some (scenarioMpPayment (Some ''888''))))
       \<noteq> scenarioPaidStore ''777''
   \<and> paymentStatus (the (storeAfter (scenarioPaidStore ''777'')
                          (mpReconcile scenarioClock (scenarioPaidStore ''777'')
                             (Some (scenarioMpPayment (Some ''888'')))) ''order-1'')) = Some Pago"
proof -
  let ?db = "scenarioPaidStore ''777''"
  let ?ev = "scenarioStripeEvent (Some ''cs_1'')"
  let ?p = "scenarioMpPayment (Some ''888'')"
  let ?s = "storeAfter ?db (stripeReconcile scenarioIsoOfSeconds scenarioClock ?db ?ev)"
  let ?m = "storeAfter ?db (mpReconcile scenarioClock ?db (Some ?p))"
  let ?ds = "\<lambda>x. [scenarioInstallment
               \<lparr> paidAmount := 50, status := Pago,
                 paymentDate := Str ''2026-01-01T00:00:00.000Z'',
                 payments := [scenarioPayment ''777'' 25, x] \<rparr>]"
  let ?x1 = "\<lparr> id_pay = ''cs_1'', amount_pay = 25, date_pay = ''2026-01-01T00:00:00.000Z'',
                      method_pay = ''Stripe'', receivedBy = ''Sistema'' \<rparr>"
  let ?x2 = "\<lparr> id_pay = ''888'', amount_pay = 25, date_pay = ''2026-01-01T00:00:00.000Z'',
                      method_pay = ''MercadoPago'', receivedBy = ''Sistema'' \<rparr>"
  have oid: "stripe_orderId ?ev = ''order-1''"
    by (simp add: scenario_defs handler_defs)
  have "?s ''order-1'' \<noteq> ?db ''order-1''"
    by (simp only: scenario_stripe_completes) (simp add: scenario_defs)
  then have s1: "?s \<noteq> ?db" by metis
  have "?m ''order-1'' \<noteq> ?db ''order-1''"
    by (simp only: scenario_mp_completes) (simp add: scenario_defs)
  then have m1: "?m \<noteq> ?db" by metis
  have hs: "isInstallmentPayment (session_installmentNumber ?ev) \<and> stripe_nextPaymentStatus ?ev = Pago
      \<and> ?s \<noteq> ?db \<and> ?s (stripe_orderId ?ev) = Some (the (?s (stripe_orderId ?ev)))
      \<and> installmentDetails (the (?s (stripe_orderId ?ev))) = Some (?ds ?x1) \<and> ?ds ?x1 \<noteq> []
      \<and> list_all (\<lambda>i. status i = Pago) (?ds ?x1)"
    using s1 by (simp add: oid scenario_stripe_completes)
      (simp add: scenario_defs handler_defs)
  have hm: "isInstallmentPayment (mp_installmentNumber ?p)
      \<and> paymentStatusFromMercadoPago (orElse (mp_status ?p) []) = Pago
      \<and> external_reference ?p = Some ''order-1''
      \<and> ?m \<noteq> ?db \<and> ?m ''order-1'' = Some (the (?m ''order-1''))
      \<and> installmentDetails (the (?m ''order-1'')) = Some (?ds ?x2) \<and> ?ds ?x2 \<noteq> []
      \<and> list_all (\<lambda>i. status i = Pago) (?ds ?x2)"
    using m1 by (simp add: scenario_mp_completes)
      (simp add: scenario_defs handler_defs)
  from webhook_completion_sets_paymentStatus
      [where ev = ?ev and isoS = scenarioIsoOfSeconds and clk = scenarioClock and db = ?db
         and ord' = "the (?s (stripe_orderId ?ev))" and ds = "?ds ?x1"]
    hs
  have c1: "paymentStatus (the (?s (stripe_orderId ?ev))) = Some Pago" by blast
  from webhook_completion_sets_paymentStatus
      [where clk = scenarioClock and db = ?db and ord' = "the (?m ''order-1'')"
         and ds = "?ds ?x2" and p = ?p and oid = "''order-1''"]
    hm
  have c2: "paymentStatus (the (?m ''order-1'')) = Some Pago" by blast
  from s1 m1 c1 c2 show ?thesis by blast
qed

text \<open>
  Counterexample to claim C2 as stated: the admin records a payment of 50.00 on the only
  installment (of 50.00) of an order whose \<open>paymentStatus\<close> is \<open>Pendente\<close>. The installment
  becomes \<open>Pago\<close>, so every installment of the non-empty list is \<open>Pago\<close>, and the order's
  \<open>paymentStatus\<close> is still \<open>Pendente\<close>: \<open>recordInstallmentPayment\<close> writes only
  \<open>installmentDetails\<close>.
\<close>

theorem recordInstallmentPayment_keeps_paymentStatus:
  "(\<exists>db'. recordInstallmentPayment scenarioStore ''order-1'' 1 (scenarioPayment ''p1'' 50) None
            = Inr db'
      \<and> db' ''order-1'' =
         Some \<lparr> paymentStatus = Some Pendente, paymentProvider = None, paymentSessionId = None,
                installmentDetails = Some
                  [scenarioInstallment
                     \<lparr> status := Pago, paidAmount := 50,
                       payments := [(scenarioPayment ''p1'' 50)\<lparr> receivedBy := ''Sistema'' \<rparr>] \<rparr>] \<rparr>)"
  by (simp add: recordInstallmentPayment_def recordPaymentOn_def updateDoc_def applyPatch_def
      orElse_def Let_def hasUndefined_def scenario_defs number_defs)

lemma updateDoc_frame:
  "patch_installmentDetails pt = None \<Longrightarrow>
   updateDoc db oid pt = Inr (storeAfter db (updateDoc db oid pt))
   \<and> map_option installmentDetails (storeAfter db (updateDoc db oid pt) oid)
       = map_option installmentDetails (db oid)
   \<and> map_option order.more (storeAfter db (updateDoc db oid pt) oid) = map_option order.more (db oid)
   \<and> (\<forall>k. k \<noteq> oid \<longrightarrow> storeAfter db (updateDoc db oid pt) k = db k)"
  by (simp add: updateDoc_def applyPatch_def storeAfter_def split: option.splits)

text \<open>
  Claim C7. For an event that is not an installment-targeted \<open>Pago\<close> event (no installment
  target, or a status other than \<open>Pago\<close>), the reconciler writes, on the correlated order,
  \<open>paymentStatus\<close> (the event's status, whatever the current one is) and \<open>paymentProvider\<close>,
  and for Stripe \<open>paymentSessionId\<close> when the session id is not empty; \<open>installmentDetails\<close>,
  every other field of the order and every other order stay as they were. An order that
  does not exist is not created.
\<close>

theorem order_level_stamp_frame:
  "(stripe_shouldUpdate ev \<and> stripe_orderId ev \<noteq> []
      \<and> \<not> (isInstallmentPayment (session_installmentNumber ev) \<and> stripe_nextPaymentStatus ev = Pago)
    \<longrightarrow> stripeReconcile isoS clk db ev =
          Inr (case db (stripe_orderId ev) of
             None \<Rightarrow> db
           | Some ord \<Rightarrow>
               db(stripe_orderId ev \<mapsto>
                    ord\<lparr> paymentStatus := Some (stripe_nextPaymentStatus ev),
                         paymentProvider := Some ''Stripe'',
                         paymentSessionId :=
                           (if stripe_sessionId ev \<noteq> [] then Some (stripe_sessionId ev)
                            else paymentSessionId ord) \<rparr>))
        \<and> map_option installmentDetails
            (storeAfter db (stripeReconcile isoS clk db ev) (stripe_orderId ev))
            = map_option installmentDetails (db (stripe_orderId ev))
        \<and> map_option order.more (storeAfter db (stripeReconcile isoS clk db ev) (stripe_orderId ev))
            = map_option order.more (db (stripe_orderId ev))
        \<and> (\<forall>k. k \<noteq> stripe_orderId ev \<longrightarrow> storeAfter db (stripeReconcile isoS clk db ev) k = db k))
   \<and> (external_reference p = Some oid \<and> oid \<noteq> []
      \<and> \<not> (isInstallmentPayment (mp_installmentNumber p)
             \<and> paymentStatusFromMercadoPago (orElse (mp_status p) []) = Pago)
    \<longrightarrow> mpReconcile clk db (Some p) =
          Inr (case db oid of
             None \<Rightarrow> db
           | Some ord \<Rightarrow>
               db(oid \<mapsto>
                    ord\<lparr> paymentStatus := Some (paymentStatusFromMercadoPago (orElse (mp_status p) [])),
                         paymentProvider := Some ''MercadoPago'' \<rparr>))
        \<and> map_option installmentDetails (storeAfter db (mpReconcile clk db (Some p)) oid)
            = map_option installmentDetails (db oid)
        \<and> map_option order.more (storeAfter db (mpReconcile clk db (Some p)) oid) = map_option order.more (db oid)
        \<and> (\<forall>k. k \<noteq> oid \<longrightarrow> storeAfter db (mpReconcile clk db (Some p)) k = db k))"
proof (intro conjI impI)
  assume h: "stripe_shouldUpdate ev \<and> stripe_orderId ev \<noteq> []
      \<and> \<not> (isInstallmentPayment (session_installmentNumber ev) \<and> stripe_nextPaymentStatus ev = Pago)"
  let ?pt = "\<lparr> patch_installmentDetails = None,
                patch_paymentStatus = Some (stripe_nextPaymentStatus ev),
                patch_paymentProvider = Some ''Stripe'',
                patch_paymentSessionId =
                  (if stripe_sessionId ev \<noteq> [] then Some (stripe_sessionId ev) else None) \<rparr>"
  from h have r: "stripeReconcile isoS clk db ev = updateDoc db (stripe_orderId ev) ?pt"
    by (auto simp: stripeReconcile_def Let_def)
  show "stripeReconcile isoS clk db ev =
          Inr (case db (stripe_orderId ev) of
             None \<Rightarrow> db
           | Some ord \<Rightarrow>
               db(stripe_orderId ev \<mapsto>
                    ord\<lparr> paymentStatus := Some (stripe_nextPaymentStatus ev),
                         paymentProvider := Some ''Stripe'',
                         paymentSessionId :=
                           (if stripe_sessionId ev \<noteq> [] then Some (stripe_sessionId ev)
                            else paymentSessionId ord) \<rparr>))"
    unfolding r by (simp add: updateDoc_def applyPatch_def split: option.splits)
  have f: "patch_installmentDetails ?pt = None" by simp
  note fr = updateDoc_frame [OF f, of db "stripe_orderId ev"]
  show "map_option installmentDetails
            (storeAfter db (stripeReconcile isoS clk db ev) (stripe_orderId ev))
            = map_option installmentDetails (db (stripe_orderId ev))"
    unfolding r using fr by blast
  show "map_option order.more (storeAfter db (stripeReconcile isoS clk db ev) (stripe_orderId ev))
            = map_option order.more (db (stripe_orderId ev))"
    unfolding r using fr by blast
  show "\<forall>k. k \<noteq> stripe_orderId ev \<longrightarrow> storeAfter db (stripeReconcile isoS clk db ev) k = db k"
    unfolding r using fr by blast
next
  assume h: "external_reference p = Some oid \<and> oid \<noteq> []
      \<and> \<not> (isInstallmentPayment (mp_installmentNumber p)
             \<and> paymentStatusFromMercadoPago (orElse (mp_status p) []) = Pago)"
  let ?pt = "\<lparr> patch_installmentDetails = None,
                patch_paymentStatus = Some (paymentStatusFromMercadoPago (orElse (mp_status p) [])),
                patch_paymentProvider = Some ''MercadoPago'',
                patch_paymentSessionId = None \<rparr>"
  from h have r: "mpReconcile clk db (Some p) = updateDoc db oid ?pt"
    by (auto simp: mpReconcile_def Let_def)
  show "mpReconcile clk db (Some p) =
          Inr (case db oid of
             None \<Rightarrow> db
           | Some ord \<Rightarrow>
               db(oid \<mapsto>
                    ord\<lparr> paymentStatus := Some (paymentStatusFromMercadoPago (orElse (mp_status p) [])),
                         paymentProvider := Some ''MercadoPago'' \<rparr>))"
    unfolding r by (simp add: updateDoc_def applyPatch_def split: option.splits)
  have f: "patch_installmentDetails ?pt = None" by simp
  note fr = updateDoc_frame [OF f, of db oid]
  show "map_option installmentDetails (storeAfter db (mpReconcile clk db (Some p)) oid)
            = map_option installmentDetails (db oid)"
    unfolding r using fr by blast
  show "map_option order.more (storeAfter db (mpReconcile clk db (Some p)) oid) = map_option order.more (db oid)"
    unfolding r using fr by blast
  show "\<forall>k. k \<noteq> oid \<longrightarrow> storeAfter db (mpReconcile clk db (Some p)) k = db k"
    unfolding r using fr by blast
qed

theorem order_level_stamp_frame_witness:
  "stripe_shouldUpdate ((scenarioStripeEvent (Some ''cs_1''))\<lparr> payment_status := ''unpaid'' \<rparr>)
   \<and> stripe_nextPaymentStatus ((scenarioStripeEvent (Some ''cs_1''))\<lparr> payment_status := ''unpaid'' \<rparr>)
       = Pendente
   \<and> storeAfter (scenarioPaidStore ''777'')
        (stripeReconcile scenarioIsoOfSeconds scenarioClock (scenarioPaidStore ''777'')
           ((scenarioStripeEvent (Some ''cs_1''))\<lparr> payment_status := ''unpaid'' \<rparr>)) ''order-1''
      = Some (scenarioOrder
               \<lparr> installmentDetails :=
                   Some [scenarioInstallment\<lparr> paidAmount := 25,
                                              payments := [scenarioPayment ''777'' 25] \<rparr>],
                 paymentStatus := Some Pendente, paymentProvider := Some ''Stripe'',
                 paymentSessionId := Some ''cs_1'' \<rparr>)
   \<and> storeAfter (scenarioPaidStore ''777'')
        (mpReconcile scenarioClock (scenarioPaidStore ''777'')
           (Some ((scenarioMpPayment (Some ''888''))\<lparr> mp_status := Some ''rejected'' \<rparr>))) ''order-1''
      = Some (scenarioOrder
               \<lparr> installmentDetails :=
                   Some [scenarioInstallment\<lparr> paidAmount := 25,
                                              payments := [scenarioPayment ''777'' 25] \<rparr>],
                 paymentStatus := Some Falhou, paymentProvider := Some ''MercadoPago'' \<rparr>)"
proof -
  let ?ev = "(scenarioStripeEvent (Some ''cs_1''))\<lparr> payment_status := ''unpaid'' \<rparr>"
  let ?p = "(scenarioMpPayment (Some ''888''))\<lparr> mp_status := Some ''rejected'' \<rparr>"
  have hs: "stripe_shouldUpdate ?ev \<and> stripe_orderId ?ev \<noteq> []
      \<and> \<not> (isInstallmentPayment (session_installmentNumber ?ev) \<and> stripe_nextPaymentStatus ?ev = Pago)"
    by (simp add: scenario_defs handler_defs)
  have hm: "external_reference ?p = Some ''order-1'' \<and> ''order-1'' \<noteq> []
      \<and> \<not> (isInstallmentPayment (mp_installmentNumber ?p)
             \<and> paymentStatusFromMercadoPago (orElse (mp_status ?p) []) = Pago)"
    by (simp add: scenario_defs handler_defs)
  have v: "stripe_orderId ?ev = ''order-1''" "stripe_sessionId ?ev = ''cs_1''"
    "stripe_nextPaymentStatus ?ev = Pendente"
    "paymentStatusFromMercadoPago (orElse (mp_status ?p) []) = Falhou"
    "scenarioPaidStore ''777'' ''order-1'' =
       Some (scenarioOrder\<lparr> installmentDetails :=
               Some [scenarioInstallment\<lparr> paidAmount := 25,
                                          payments := [scenarioPayment ''777'' 25] \<rparr>] \<rparr>)"
    by (simp_all add: scenario_defs handler_defs)
  from order_level_stamp_frame
      [where ev = ?ev and isoS = scenarioIsoOfSeconds and clk = scenarioClock
         and db = "scenarioPaidStore ''777''" and p = ?p and oid = "''order-1''"]
    hs hm
  have "stripeReconcile scenarioIsoOfSeconds scenarioClock (scenarioPaidStore ''777'') ?ev =
          Inr (case scenarioPaidStore ''777'' (stripe_orderId ?ev) of
             None \<Rightarrow> scenarioPaidStore ''777''
           | Some ord \<Rightarrow>
               (scenarioPaidStore ''777'')(stripe_orderId ?ev \<mapsto>
                    ord\<lparr> paymentStatus := Some (stripe_nextPaymentStatus ?ev),
                         paymentProvider := Some ''Stripe'',
                         paymentSessionId :=
                           (if stripe_sessionId ?ev \<noteq> [] then Some (stripe_sessionId ?ev)
                            else paymentSessionId ord) \<rparr>))"
    and "mpReconcile scenarioClock (scenarioPaidStore ''777'') (Some ?p) =
          Inr (case scenarioPaidStore ''777'' ''order-1'' of
             None \<Rightarrow> scenarioPaidStore ''777''
           | Some ord \<Rightarrow>
               (scenarioPaidStore ''777'')(''order-1'' \<mapsto>
                    ord\<lparr> paymentStatus := Some (paymentStatusFromMercadoPago (orElse (mp_status ?p) [])),
                         paymentProvider := Some ''MercadoPago'' \<rparr>))"
    by blast+
  then show ?thesis
    using hs by (simp add: v paymentStatusFromMercadoPago_def orElse_def storeAfter_def)
qed

section \<open>Properties of the admin operations\<close>

lemmas admin_defs =
  recordInstallmentPayment_def recordPaymentOn_def reversePayment_def reversePaymentOn_def
  updateDoc_def applyPatch_def orElse_def Let_def hasUndefined_def storeAfter_def

text \<open>
  Claim C3, the code at the failing input. The admin records a payment of 60.00 on the
  installment of 50.00: \<open>recordInstallmentPayment\<close> leaves the status \<open>Pendente\<close>, although
  60.00 + 0.01 is at least 50.00, because it tests \<open>Math.abs(newPaidAmount - amount) < 0.01\<close>;
  the webhook callback, on the same installment and amount, sets \<open>Pago\<close>.
\<close>

theorem recordInstallmentPayment_overpayment_pendente:
  "recordInstallmentPayment scenarioStore ''order-1'' 1 (scenarioPayment ''p1'' 60) None =
     Inr [''order-1'' \<mapsto>
       scenarioOrder
            \<lparr> installmentDetails := Some
                [scenarioInstallment
                   \<lparr> status := Pendente, paidAmount := 60,
                     payments := [(scenarioPayment ''p1'' 60)\<lparr> receivedBy := ''Sistema'' \<rparr>] \<rparr>] \<rparr>]
   \<and> double (amount scenarioInstallment) \<le> fadd 60 (1 / 100)
   \<and> status (fst (creditInstallment ''Stripe'' ''stripe-'' ''cs_1'' 1 60
                     ''2026-01-01T00:00:00.000Z'' 1767225600000 scenarioInstallment)) = Pago"
  by (simp add: admin_defs scenario_defs creditInstallment_def number_defs)

text \<open>
  The two tests on doubles, at amounts where the doubles and the decimals part: the admin's
  test takes 49.99 paid of 50.00 as \<open>Pago\<close>, since \<open>49.99 - 50\<close> is \<open>-0.00999999999999801\<close>
  on doubles; the webhook's test leaves 2.01 paid of 2.02 \<open>Pendente\<close>, since \<open>2.01 + 0.01\<close>
  is \<open>2.0199999999999996\<close>; and a reversal of 6.08 from 16.08 paid of 10.00 gives
  \<open>Pendente\<close>, since \<open>16.08 - 6.08\<close> is \<open>9.999999999999998\<close>.
\<close>

lemma recordPaymentOn_4999_of_50:
  "status (recordPaymentOn 1 (scenarioPayment ''p1'' (4999 / 100)) scenarioInstallment) = Pago"
  by (simp add: admin_defs scenario_defs number_defs)

lemma creditInstallment_201_of_202:
  "status (fst (creditInstallment ''Stripe'' ''stripe-'' ''cs_1'' 1 (201 / 100)
                  ''2026-01-01T00:00:00.000Z'' 1767225600000
                  (scenarioInstallment\<lparr> amount := 202 / 100 \<rparr>))) = Pendente"
  by (simp add: creditInstallment_def Let_def scenario_defs number_defs)

lemma reversePaymentOn_608_from_1608_of_10:
  "status (reversePaymentOn 1 ''p1''
             (scenarioInstallment\<lparr> amount := 10, paidAmount := 1608 / 100, status := Pago,
                payments := [scenarioPayment ''p1'' (608 / 100)] \<rparr>)) = Pendente"
  by (simp add: admin_defs scenario_defs number_defs)








section \<open>Properties of the gateway lookup\<close>

text \<open>
  Claim C8, as amended. When the access token is configured, the notification names a
  payment and the gateway answers the lookup with a status outside 200 to 299, the webhook
  responds with status 500, whatever the gateway's status is, and with the gateway's
  \<open>message\<close> when it has one (a fixed message otherwise), and the store is left as it was.
\<close>

theorem gateway_lookup_failure:
  "orElse accessToken [] \<noteq> [] \<and> webhookPaymentId req \<noteq> []
      \<and> fetch (webhookPaymentId req) = Some mpRes \<and> \<not> ok mpRes
    \<longrightarrow> mercadopago_POST fetch clk accessToken req db =
          (Inr \<lparr> status_code = 500,
                 body = ErrorBody
                   (orElse (case res_json mpRes of None \<Rightarrow> None | Some p \<Rightarrow> mp_message p)
                      mercadoPagoLookupError) \<rparr>, db)"
  by (simp add: mercadopago_POST_def Let_def)

theorem gateway_lookup_failure_witness:
  "orElse (Some ''APP_USR-token'') [] \<noteq> [] \<and> webhookPaymentId scenarioNotification = ''123''
   \<and> map_option ok (scenarioFetchNotFound ''123'') = Some False
   \<and> mercadopago_POST scenarioFetchNotFound scenarioClock (Some ''APP_USR-token'')
        scenarioNotification scenarioStore
      = (Inr \<lparr> status_code = 500, body = ErrorBody ''Payment not found'' \<rparr>, scenarioStore)"
proof -
  let ?r = "\<lparr> res_status = 404,
            res_json = Some \<lparr> mp_message = Some ''Payment not found'', mp_id = None,
                               mp_status = None, transaction_amount = None,
                               external_reference = None, mp_installmentNumber = None,
                               date_approved = None, date_created = None \<rparr> \<rparr>"
  have v: "webhookPaymentId scenarioNotification = ''123''"
    by (simp add: webhookPaymentId_def scenario_defs)
  have k: "map_option ok (scenarioFetchNotFound ''123'') = Some False"
    by (simp add: scenario_defs ok_def)
  have h1: "orElse (Some ''APP_USR-token'') [] \<noteq> [] \<and> webhookPaymentId scenarioNotification \<noteq> []
      \<and> scenarioFetchNotFound (webhookPaymentId scenarioNotification) = Some ?r \<and> \<not> ok ?r"
    by (simp add: webhookPaymentId_def scenario_defs orElse_def ok_def)
  from gateway_lookup_failure
      [where accessToken = "Some ''APP_USR-token''" and req = scenarioNotification
         and fetch = scenarioFetchNotFound and mpRes = ?r and clk = scenarioClock
         and db = scenarioStore]
    h1
  have "mercadopago_POST scenarioFetchNotFound scenarioClock (Some ''APP_USR-token'')
          scenarioNotification scenarioStore =
          (Inr \<lparr> status_code = 500,
                 body = ErrorBody
                   (orElse (case res_json ?r of None \<Rightarrow> None | Some p \<Rightarrow> mp_message p)
                      mercadoPagoLookupError) \<rparr>, scenarioStore)"
    by blast
  then show ?thesis
    using k by (simp add: v orElse_def)
qed

text \<open>
  Counterexample to claim C8 as stated: the gateway answers the lookup of the webhook with
  status 404, and the webhook responds with status 500, not with the gateway's status code.
\<close>

theorem webhook_lookup_failure_status_500:
  "map_option res_status (scenarioFetchNotFound (webhookPaymentId scenarioNotification)) = Some 404
   \<and> map_option ok (scenarioFetchNotFound (webhookPaymentId scenarioNotification)) = Some False
   \<and> map_sum id status_code
        (fst (mercadopago_POST scenarioFetchNotFound scenarioClock (Some ''APP_USR-token'')
                scenarioNotification scenarioStore)) = Inr 500"
  by (simp add: mercadopago_POST_def webhookPaymentId_def scenario_defs orElse_def ok_def Let_def)

end
